theory Spec2Isabelle
  imports Complex_Main "HOL-Library.Word"
begin

section \<open>JavaScript values used by the contact-form handler\<close>

text \<open>
  The handler of \<^verbatim>\<open>lambda/contact-form/index.mjs\<close> works on JavaScript strings, which are
  sequences of UTF-16 code units: \<^verbatim>\<open>length\<close> counts code units and \<^verbatim>\<open>trim\<close>
  and the class \<^verbatim>\<open>\s\<close> look at single code units. A string literal of the source is
  written \<open>js ''...''\<close>.
\<close>

type_synonym jschar = "16 word"
type_synonym jsstring = "jschar list"

definition js :: "string \<Rightarrow> jsstring" where
  "js s = map (\<lambda>c. of_nat (of_char c)) s"

text \<open>
  ECMAScript WhiteSpace and LineTerminator code units: what \<^verbatim>\<open>String.prototype.trim\<close>
  strips and what \<^verbatim>\<open>\s\<close> matches (TAB, LF, VT, FF, CR, SP, NBSP, U+1680,
  U+2000..U+200A, LS, PS, U+202F, U+205F, U+3000, U+FEFF).
\<close>

definition isWhiteSpaceCP :: "nat \<Rightarrow> bool" where
  "isWhiteSpaceCP c \<longleftrightarrow>
     c = 0x9 \<or> c = 0xA \<or> c = 0xB \<or> c = 0xC \<or> c = 0xD \<or> c = 0x20 \<or> c = 0xA0 \<or>
     c = 0x1680 \<or> (0x2000 \<le> c \<and> c \<le> 0x200A) \<or> c = 0x2028 \<or> c = 0x2029 \<or>
     c = 0x202F \<or> c = 0x205F \<or> c = 0x3000 \<or> c = 0xFEFF"

definition isWhiteSpace :: "jschar \<Rightarrow> bool" where
  "isWhiteSpace c = isWhiteSpaceCP (unat c)"

text \<open>\<^verbatim>\<open>s.trim()\<close>\<close>

definition trim :: "jsstring \<Rightarrow> jsstring" where
  "trim s = rev (dropWhile isWhiteSpace (rev (dropWhile isWhiteSpace s)))"

text \<open>\<^verbatim>\<open>s.startsWith(p)\<close>, \<^verbatim>\<open>s.endsWith(p)\<close> and \<^verbatim>\<open>s.includes(p)\<close>\<close>

fun startsWith :: "jsstring \<Rightarrow> jsstring \<Rightarrow> bool" where
  "startsWith s [] = True"
| "startsWith [] (p # ps) = False"
| "startsWith (c # cs) (p # ps) = (c = p \<and> startsWith cs ps)"

definition endsWith :: "jsstring \<Rightarrow> jsstring \<Rightarrow> bool" where
  "endsWith s p = startsWith (rev s) (rev p)"

fun strIncludes :: "jsstring \<Rightarrow> jsstring \<Rightarrow> bool" where
  "strIncludes [] p = (p = [])"
| "strIncludes (c # cs) p = (startsWith (c # cs) p \<or> strIncludes cs p)"

text \<open>
  Numbers. \<^verbatim>\<open>parseInt\<close> yields an integer or NaN: \<open>None\<close> is NaN. A double is
  NaN, an infinity or a finite value, which is a real number; comparisons of doubles are
  exact, so \<^verbatim>\<open>>=\<close> and \<^verbatim>\<open><\<close> are the comparisons of these reals, false
  whenever an operand is NaN.
\<close>

datatype jsnumber = NaN | NegInfinity | Num real | PosInfinity

fun js_ge :: "jsnumber \<Rightarrow> jsnumber \<Rightarrow> bool" where
  "js_ge NaN y = False"
| "js_ge x NaN = False"
| "js_ge PosInfinity y = True"
| "js_ge x NegInfinity = True"
| "js_ge NegInfinity y = False"
| "js_ge x PosInfinity = False"
| "js_ge (Num a) (Num b) = (a \<ge> b)"

fun js_lt :: "jsnumber \<Rightarrow> jsnumber \<Rightarrow> bool" where
  "js_lt NaN y = False"
| "js_lt x NaN = False"
| "js_lt PosInfinity y = False"
| "js_lt x NegInfinity = False"
| "js_lt NegInfinity y = True"
| "js_lt x PosInfinity = True"
| "js_lt (Num a) (Num b) = (a < b)"

text \<open>\<^verbatim>\<open>n > m\<close> for a string length \<open>n\<close> and a \<^verbatim>\<open>parseInt\<close> result \<open>m\<close>\<close>

fun gtLength :: "nat \<Rightarrow> int option \<Rightarrow> bool" where
  "gtLength n None = False"
| "gtLength n (Some m) = (int n > m)"

text \<open>The decimal string of an integer, as a template literal prints it.\<close>

fun showNat :: "nat \<Rightarrow> string" where
  "showNat n = (if n < 10 then [char_of (48 + n)] else showNat (n div 10) @ [char_of (48 + n mod 10)])"

definition showInt :: "int \<Rightarrow> string" where
  "showInt i = (if i < 0 then CHR ''-'' # showNat (nat (- i)) else showNat (nat i))"

fun numberToString :: "int option \<Rightarrow> jsstring" where
  "numberToString None = js ''NaN''"
| "numberToString (Some i) = js (showInt i)"

text \<open>
  Values: what \<^verbatim>\<open>JSON.parse\<close> can return, and \<^verbatim>\<open>undefined\<close>. An object is
  the list of its own properties; a property is read with \<open>getOwn\<close>, which is right for
  every name the handler reads (none is an array index, \<^verbatim>\<open>length\<close> or a member of a
  prototype).
\<close>

datatype jsvalue =
    JUndefined
  | JNull
  | JBool bool
  | JNum jsnumber
  | JStr jsstring
  | JArr "jsvalue list"
  | JObj "(jsstring \<times> jsvalue) list"

text \<open>
  Thrown values are error objects: the \<^verbatim>\<open>ValidationError\<close> class of the source (field,
  message), and any other \<^verbatim>\<open>Error\<close> (message, stack), such as a TypeError of the
  engine or an error of a client. The stack of a \<^verbatim>\<open>ValidationError\<close> is never read.
\<close>

datatype exn = ValidationError jsstring jsstring | Error jsstring jsstring

fun errMessage :: "exn \<Rightarrow> jsstring" where
  "errMessage (ValidationError f m) = m"
| "errMessage (Error m s) = m"

fun nullish :: "jsvalue \<Rightarrow> bool" where
  "nullish JUndefined = True"
| "nullish JNull = True"
| "nullish v = False"

fun truthy :: "jsvalue \<Rightarrow> bool" where
  "truthy JUndefined = False"
| "truthy JNull = False"
| "truthy (JBool b) = b"
| "truthy (JNum n) = (n \<noteq> NaN \<and> n \<noteq> Num 0)"
| "truthy (JStr s) = (s \<noteq> [])"
| "truthy (JArr xs) = True"
| "truthy (JObj kvs) = True"

text \<open>\<^verbatim>\<open>a || b\<close>\<close>

definition jsOr :: "jsvalue \<Rightarrow> jsvalue \<Rightarrow> jsvalue" where
  "jsOr a b = (if truthy a then a else b)"

fun typeof :: "jsvalue \<Rightarrow> string" where
  "typeof JUndefined = ''undefined''"
| "typeof JNull = ''object''"
| "typeof (JBool b) = ''boolean''"
| "typeof (JNum n) = ''number''"
| "typeof (JStr s) = ''string''"
| "typeof (JArr xs) = ''object''"
| "typeof (JObj kvs) = ''object''"

fun getOwn :: "jsvalue \<Rightarrow> jsstring \<Rightarrow> jsvalue" where
  "getOwn (JObj kvs) k = (case map_of kvs k of Some v \<Rightarrow> v | None \<Rightarrow> JUndefined)"
| "getOwn v k = JUndefined"

text \<open>\<^verbatim>\<open>v?.k\<close>\<close>

definition optProp :: "jsvalue \<Rightarrow> jsstring \<Rightarrow> jsvalue" where
  "optProp v k = (if nullish v then JUndefined else getOwn v k)"

text \<open>
  An object literal with a spread, \<^verbatim>\<open>{ ...base, ...data }\<close>: a key that is already
  there keeps its place and takes the new value, a new key goes to the end.
\<close>

fun setProp :: "('k \<times> 'v) list \<Rightarrow> 'k \<Rightarrow> 'v \<Rightarrow> ('k \<times> 'v) list" where
  "setProp [] k v = [(k, v)]"
| "setProp ((k', v') # kvs) k v = (if k' = k then (k, v) # kvs else (k', v') # setProp kvs k v)"

definition spread :: "('k \<times> 'v) list \<Rightarrow> ('k \<times> 'v) list \<Rightarrow> ('k \<times> 'v) list" where
  "spread base more = foldl (\<lambda>acc (k, v). setProp acc k v) base more"

section \<open>Regular expressions\<close>

text \<open>
  The patterns of the source are anchored at both ends (\<^verbatim>\<open>^...$\<close>) and use classes,
  concatenation and \<^verbatim>\<open>+\<close> only, so \<^verbatim>\<open>pattern.test(s)\<close> says whether the whole
  string is in the language of the expression. Membership is decided with derivatives.
  Without the \<^verbatim>\<open>u\<close> flag the expression reads code units, with it code points.
\<close>

datatype rexp =
    Zero
  | One
  | Atom "nat \<Rightarrow> bool"
  | Alt rexp rexp
  | Seq rexp rexp
  | Star rexp

definition Plus :: "rexp \<Rightarrow> rexp" where
  "Plus r = Seq r (Star r)"

fun nullable :: "rexp \<Rightarrow> bool" where
  "nullable Zero = False"
| "nullable One = True"
| "nullable (Atom P) = False"
| "nullable (Alt r s) = (nullable r \<or> nullable s)"
| "nullable (Seq r s) = (nullable r \<and> nullable s)"
| "nullable (Star r) = True"

fun deriv :: "nat \<Rightarrow> rexp \<Rightarrow> rexp" where
  "deriv c Zero = Zero"
| "deriv c One = Zero"
| "deriv c (Atom P) = (if P c then One else Zero)"
| "deriv c (Alt r s) = Alt (deriv c r) (deriv c s)"
| "deriv c (Seq r s) =
     (if nullable r then Alt (Seq (deriv c r) s) (deriv c s) else Seq (deriv c r) s)"
| "deriv c (Star r) = Seq (deriv c r) (Star r)"

definition matches :: "rexp \<Rightarrow> nat list \<Rightarrow> bool" where
  "matches r cs = nullable (foldl (\<lambda>r c. deriv c r) r cs)"

text \<open>The code points of a string: a leading surrogate followed by a trailing one is one code point.\<close>

fun codePoints :: "jsstring \<Rightarrow> nat list" where
  "codePoints [] = []"
| "codePoints [c] = [unat c]"
| "codePoints (h # l # cs) =
     (if 0xD800 \<le> h \<and> h \<le> 0xDBFF \<and> 0xDC00 \<le> l \<and> l \<le> 0xDFFF
      then (0x10000 + (unat h - 0xD800) * 0x400 + (unat l - 0xDC00)) # codePoints cs
      else unat h # codePoints (l # cs))"

record jsregexp =
  rx :: rexp
  unicodeFlag :: bool

definition regexTest :: "jsregexp \<Rightarrow> jsstring \<Rightarrow> bool" where
  "regexTest p s = matches (rx p) (if unicodeFlag p then codePoints s else map unat s)"

section \<open>The engine and the clients\<close>

text \<open>
  What the source calls but does not define is a parameter of the model: the built-ins of
  the JavaScript engine (one record, \<open>engine\<close>) and the three injected clients
  (\<open>clients\<close>). A call that may throw returns \<open>Inl\<close> of the thrown value.

  \<^item> \<open>uniL\<close>, \<open>uniN\<close>, \<open>uniP\<close>, \<open>uniZ\<close>: the Unicode general categories behind
    \<^verbatim>\<open>\p{L}\<close>, \<^verbatim>\<open>\p{N}\<close>, \<^verbatim>\<open>\p{P}\<close> and \<^verbatim>\<open>\p{Z}\<close>;
  \<^item> \<open>typeError k\<close>: the TypeError thrown when property \<open>k\<close> is read from
    \<^verbatim>\<open>undefined\<close> or \<^verbatim>\<open>null\<close>, or when \<open>k\<close> is called and is not a function;
  \<^item> \<open>jsonParse\<close>, \<open>jsonStringify\<close>: \<^verbatim>\<open>JSON.parse\<close>, \<^verbatim>\<open>JSON.stringify\<close>;
  \<^item> \<open>base64Decode b\<close>: \<^verbatim>\<open>Buffer.from(b, 'base64').toString('utf-8')\<close>;
  \<^item> \<open>urlEntries b\<close>: the entries of \<^verbatim>\<open>new URLSearchParams(b)\<close>;
  \<^item> \<open>utf8Decode\<close>: \<^verbatim>\<open>new TextDecoder().decode\<close>;
  \<^item> \<open>toStringOther\<close>, \<open>toNumberOther\<close>: the conversions of a value that is not a
    string (in a template literal), and of one that is not a number, \<^verbatim>\<open>undefined\<close>,
    \<^verbatim>\<open>null\<close> or a boolean (in a comparison);
  \<^item> \<open>percentFixed1 v\<close>: \<^verbatim>\<open>(v * 100).toFixed(1)\<close>;
  \<^item> \<open>randomUUID\<close>, \<open>dateNow\<close>, \<open>dateISO\<close>: \<^verbatim>\<open>randomUUID()\<close>, \<^verbatim>\<open>Date.now()\<close>
    and \<^verbatim>\<open>new Date().toISOString()\<close> of the invocation.
\<close>

record engine =
  uniL :: "nat \<Rightarrow> bool"
  uniN :: "nat \<Rightarrow> bool"
  uniP :: "nat \<Rightarrow> bool"
  uniZ :: "nat \<Rightarrow> bool"
  typeError :: "jsstring \<Rightarrow> exn"
  jsonParse :: "jsstring \<Rightarrow> exn + jsvalue"
  jsonStringify :: "jsvalue \<Rightarrow> jsstring"
  base64Decode :: "jsvalue \<Rightarrow> exn + jsstring"
  urlEntries :: "jsvalue \<Rightarrow> exn + (jsstring \<times> jsstring) list"
  utf8Decode :: "8 word list \<Rightarrow> jsstring"
  toStringOther :: "jsvalue \<Rightarrow> jsstring"
  toNumberOther :: "jsvalue \<Rightarrow> jsnumber"
  percentFixed1 :: "jsvalue \<Rightarrow> jsstring"
  randomUUID :: jsstring
  dateNow :: int
  dateISO :: jsstring

text \<open>
  \<^verbatim>\<open>client.send(command)\<close> of the email, classification and store clients. The email
  client resolves to its result object, the classification client to the bytes of
  \<^verbatim>\<open>response.body\<close>.
\<close>

record clients =
  sesSend :: "jsvalue \<Rightarrow> exn + jsvalue"
  bedrockSend :: "jsvalue \<Rightarrow> exn + 8 word list"
  dynamoSend :: "jsvalue \<Rightarrow> exn + unit"

text \<open>What an invocation does to the outside, in order.\<close>

datatype effect =
    ConsoleLog jsstring
  | ConsoleError jsstring jsvalue
  | BedrockSend jsvalue
  | DynamoSend jsvalue
  | SesSend jsvalue

fun errStack :: "exn \<Rightarrow> jsstring" where
  "errStack (Error m s) = s"
| "errStack (ValidationError f m) = []"

text \<open>\<^verbatim>\<open>v.k\<close>\<close>

definition getProp :: "engine \<Rightarrow> jsvalue \<Rightarrow> jsstring \<Rightarrow> exn + jsvalue" where
  "getProp eng v k = (if nullish v then Inl (typeError eng k) else Inr (getOwn v k))"

text \<open>\<^verbatim>\<open>v[0]\<close>\<close>

fun getIndex0 :: "engine \<Rightarrow> jsvalue \<Rightarrow> exn + jsvalue" where
  "getIndex0 eng JUndefined = Inl (typeError eng (js ''0''))"
| "getIndex0 eng JNull = Inl (typeError eng (js ''0''))"
| "getIndex0 eng (JArr xs) = Inr (case xs of [] \<Rightarrow> JUndefined | x # _ \<Rightarrow> x)"
| "getIndex0 eng (JStr s) = Inr (case s of [] \<Rightarrow> JUndefined | c # _ \<Rightarrow> JStr [c])"
| "getIndex0 eng (JObj kvs) = Inr (getOwn (JObj kvs) (js ''0''))"
| "getIndex0 eng v = Inr JUndefined"

text \<open>\<^verbatim>\<open>`${v}`\<close>\<close>

fun toStr :: "engine \<Rightarrow> jsvalue \<Rightarrow> jsstring" where
  "toStr eng (JStr s) = s"
| "toStr eng v = toStringOther eng v"

text \<open>The number a comparison reads from a value.\<close>

fun toNumber :: "engine \<Rightarrow> jsvalue \<Rightarrow> jsnumber" where
  "toNumber eng (JNum n) = n"
| "toNumber eng JUndefined = NaN"
| "toNumber eng JNull = Num 0"
| "toNumber eng (JBool b) = Num (if b then 1 else 0)"
| "toNumber eng v = toNumberOther eng v"

text \<open>Sequencing of steps that may throw.\<close>

definition andThen :: "'e + 'a \<Rightarrow> ('a \<Rightarrow> 'e + 'b) \<Rightarrow> 'e + 'b" where
  "andThen r f = (case r of Inl e \<Rightarrow> Inl e | Inr v \<Rightarrow> f v)"

section \<open>Configuration and validation schemas\<close>

text \<open>
  \<^verbatim>\<open>CONFIG\<close> is read from the environment when the module is loaded; the model takes it
  as a parameter. \<open>defaultConfig\<close> holds the fallbacks of the source.
\<close>

record config =
  toAddress :: jsstring
  fromAddress :: jsstring
  allowedOrigin :: jsstring
  region :: jsstring
  maxMessageLength :: "int option"
  maxNameLength :: "int option"
  maxPhoneLength :: "int option"
  subjectWordCount :: "int option"
  spamDetectionEnabled :: bool
  spamModelId :: jsstring
  spamConfidenceThreshold :: jsnumber
  blockedSubmissionsTable :: jsstring

definition defaultConfig :: config where
  "defaultConfig = \<lparr>
     toAddress = js ''Fred Jean <fred@fredjean.net>'',
     fromAddress = js ''Contact Form <hello@fredjean.net>'',
     allowedOrigin = js ''*'',
     region = js ''us-east-1'',
     maxMessageLength = Some 2048,
     maxNameLength = Some 100,
     maxPhoneLength = Some 20,
     subjectWordCount = Some 8,
     spamDetectionEnabled = False,
     spamModelId = js ''anthropic.claude-haiku-4-5-20251001-v1:0'',
     spamConfidenceThreshold = Num (8 / 10),
     blockedSubmissionsTable = js ''contact-form-blocked-submissions'' \<rparr>"

record schema =
  maxLength :: "int option"
  pattern :: "jsregexp option"

record validation =
  v_email :: schema
  v_name :: schema
  v_phone :: schema
  v_message :: schema

definition notSpaceNorAt :: "nat \<Rightarrow> bool" where
  "notSpaceNorAt c \<longleftrightarrow> \<not> (isWhiteSpaceCP c \<or> c = 0x40)"

definition VALIDATION :: "engine \<Rightarrow> config \<Rightarrow> validation" where
  "VALIDATION eng cfg = \<lparr>
     v_email = \<lparr>
       maxLength = Some 255,
       pattern = Some \<lparr>
         rx = Seq (Plus (Atom notSpaceNorAt))
               (Seq (Atom (\<lambda>c. c = 0x40))
                 (Seq (Plus (Atom notSpaceNorAt))
                   (Seq (Atom (\<lambda>c. c = 0x2E)) (Plus (Atom notSpaceNorAt))))),
         unicodeFlag = False \<rparr> \<rparr>,
     v_name = \<lparr>
       maxLength = maxNameLength cfg,
       pattern = Some \<lparr>
         rx = Plus (Atom (\<lambda>c. uniL eng c \<or> isWhiteSpaceCP c \<or> c = 0x27 \<or> c = 0x2D)),
         unicodeFlag = True \<rparr> \<rparr>,
     v_phone = \<lparr>
       maxLength = maxPhoneLength cfg,
       pattern = Some \<lparr>
         rx = Plus (Atom (\<lambda>c. (0x30 \<le> c \<and> c \<le> 0x39) \<or> isWhiteSpaceCP c \<or>
                               c = 0x2B \<or> c = 0x28 \<or> c = 0x29 \<or> c = 0x2D)),
         unicodeFlag = False \<rparr> \<rparr>,
     v_message = \<lparr>
       maxLength = maxMessageLength cfg,
       pattern = Some \<lparr>
         rx = Plus (Atom (\<lambda>c. uniL eng c \<or> uniN eng c \<or> uniP eng c \<or> uniZ eng c \<or>
                               c = 0xA \<or> c = 0xD)),
         unicodeFlag = True \<rparr> \<rparr> \<rparr>"

section \<open>Validation\<close>

fun strOf :: "jsvalue \<Rightarrow> jsstring" where
  "strOf (JStr s) = s"
| "strOf v = []"

text \<open>
  \<^verbatim>\<open>validateField(value, fieldName, schema)\<close>: \<open>Inl\<close> is the thrown
  \<^verbatim>\<open>ValidationError\<close>, \<open>Inr\<close> the returned string. Past the first test the value is a
  string, which \<open>strOf\<close> reads.
\<close>

definition validateField :: "jsvalue \<Rightarrow> jsstring \<Rightarrow> schema \<Rightarrow> exn + jsstring" where
  "validateField val fieldName sch =
    (if \<not> truthy val \<or> typeof val \<noteq> ''string''
     then Inl (ValidationError fieldName (fieldName @ js '' is required''))
     else
       let trimmed = trim (strOf val) in
       if length trimmed = 0
       then Inl (ValidationError fieldName (fieldName @ js '' cannot be empty''))
       else if gtLength (length trimmed) (maxLength sch)
       then Inl (ValidationError fieldName
              (fieldName @ js '' must be less than '' @ numberToString (maxLength sch)
                 @ js '' characters''))
       else if (case pattern sch of None \<Rightarrow> False | Some p \<Rightarrow> \<not> regexTest p trimmed)
       then Inl (ValidationError fieldName (fieldName @ js '' contains invalid characters''))
       else Inr trimmed)"

record contactData =
  email :: jsstring
  name :: jsstring
  phone :: jsstring
  message :: jsstring

text \<open>
  \<^verbatim>\<open>validateContactForm(data)\<close>: the object literal evaluates its four properties in
  the order written, and the first throw leaves the function.
\<close>

definition validateContactForm :: "engine \<Rightarrow> validation \<Rightarrow> jsvalue \<Rightarrow> exn + contactData" where
  "validateContactForm eng V data =
     andThen (getProp eng data (js ''email'')) (\<lambda>v1.
     andThen (validateField v1 (js ''email'') (v_email V)) (\<lambda>e.
     andThen (getProp eng data (js ''name'')) (\<lambda>v2.
     andThen (validateField v2 (js ''name'') (v_name V)) (\<lambda>n.
     andThen (getProp eng data (js ''phone'')) (\<lambda>v3.
     andThen (validateField v3 (js ''phone'') (v_phone V)) (\<lambda>p.
     andThen (getProp eng data (js ''message'')) (\<lambda>v4.
     andThen (validateField v4 (js ''message'') (v_message V)) (\<lambda>m.
     Inr \<lparr> email = e, name = n, phone = p, message = m \<rparr>))))))))"

section \<open>Responses\<close>

record response =
  statusCode :: nat
  headers :: "(jsstring \<times> jsstring) list"
  body :: jsstring

definition createResponse ::
  "engine \<Rightarrow> config \<Rightarrow> nat \<Rightarrow> jsvalue \<Rightarrow> (jsstring \<times> jsstring) list \<Rightarrow> response" where
  "createResponse eng cfg code b additionalHeaders = \<lparr>
     statusCode = code,
     headers = spread
       [(js ''Content-Type'', js ''application/json''),
        (js ''Access-Control-Allow-Origin'', allowedOrigin cfg),
        (js ''Access-Control-Allow-Headers'', js ''Content-Type''),
        (js ''Access-Control-Allow-Methods'', js ''POST, OPTIONS'')]
       additionalHeaders,
     body = jsonStringify eng b \<rparr>"

section \<open>The email\<close>

text \<open>\<^verbatim>\<open>message.replace(/\s+/g, ' ')\<close>: every maximal run of whitespace becomes one space.\<close>

function replaceSpaces :: "jsstring \<Rightarrow> jsstring" where
  "replaceSpaces [] = []"
| "replaceSpaces (c # cs) =
     (if isWhiteSpace c then 0x20 # replaceSpaces (dropWhile isWhiteSpace cs)
      else c # replaceSpaces cs)"
  by pat_completeness auto
termination
  by (relation "measure length") (auto simp: length_dropWhile_le le_imp_less_Suc)

text \<open>\<^verbatim>\<open>s.split(' ')\<close>: never empty, \<^verbatim>\<open>''.split(' ')\<close> is \<^verbatim>\<open>['']\<close>.\<close>

fun splitSpace :: "jsstring \<Rightarrow> jsstring list" where
  "splitSpace [] = [[]]"
| "splitSpace (c # cs) =
     (if c = 0x20 then [] # splitSpace cs
      else (case splitSpace cs of [] \<Rightarrow> [[c]] | w # ws \<Rightarrow> (c # w) # ws))"

text \<open>\<^verbatim>\<open>words.join(' ')\<close>\<close>

fun joinSpace :: "jsstring list \<Rightarrow> jsstring" where
  "joinSpace [] = []"
| "joinSpace [w] = w"
| "joinSpace (w # ws) = w @ 0x20 # joinSpace ws"

text \<open>
  \<^verbatim>\<open>xs.slice(0, n)\<close>: NaN counts as 0, and a negative \<open>n\<close> counts from the end.
\<close>

fun slice0 :: "'a list \<Rightarrow> int option \<Rightarrow> 'a list" where
  "slice0 xs None = []"
| "slice0 xs (Some n) = (if n < 0 then take (nat (int (length xs) + n)) xs else take (nat n) xs)"

record classificationResult =
  classification :: jsvalue
  confidence :: jsvalue
  reason :: jsvalue
  failedOpen :: bool

text \<open>
  The result of a successful classification has no \<^verbatim>\<open>failedOpen\<close> property; the
  source reads the property for its truth value only, so absent is \<open>False\<close>. The literal
  \<^verbatim>\<open>0.9\<close> is the double nearest to nine tenths.
\<close>

definition double_0_9 :: real where
  "double_0_9 = 8106479329266893 / 9007199254740992"

definition generateSubject ::
  "engine \<Rightarrow> config \<Rightarrow> jsstring \<Rightarrow> classificationResult option \<Rightarrow> jsstring" where
  "generateSubject eng cfg msg classificationResult =
    (let wds = splitSpace (trim (replaceSpaces msg));
         subject = joinSpace (slice0 wds (subjectWordCount cfg));
         subject = (if length subject < length msg then subject @ js ''...'' else subject)
     in case classificationResult of
          None \<Rightarrow> subject
        | Some cr \<Rightarrow>
            let isNotClean =
                  (classification cr = JStr (js ''SALES'') \<or>
                   (classification cr = JStr (js ''LEGITIMATE'') \<and>
                    js_lt (toNumber eng (confidence cr)) (Num double_0_9)))
            in if isNotClean then [0xD83E, 0xDD28, 0x20] @ subject else subject)"

text \<open>\<^verbatim>\<open>lines.join('\n')\<close>\<close>

fun joinLines :: "jsstring list \<Rightarrow> jsstring" where
  "joinLines [] = []"
| "joinLines [l] = l"
| "joinLines (l # ls) = l @ 0xA # joinLines ls"

definition formatEmailBody ::
  "engine \<Rightarrow> contactData \<Rightarrow> classificationResult option \<Rightarrow> jsstring" where
  "formatEmailBody eng contactData classificationResult =
    (let lines1 =
           [js ''New Contact Form Submission'',
            [],
            js ''Name: '' @ name contactData,
            js ''Email: '' @ email contactData,
            js ''Phone: '' @ phone contactData,
            []];
         lines2 =
           (case classificationResult of
              None \<Rightarrow> lines1
            | Some cr \<Rightarrow>
                lines1 @
                [js ''Spam Detection:'',
                 js ''  Classification: '' @ toStr eng (classification cr),
                 js ''  Confidence: '' @ percentFixed1 eng (confidence cr) @ js ''%'',
                 js ''  Reason: '' @ toStr eng (reason cr)] @
                (if failedOpen cr
                 then [[0x20, 0x20, 0x26A0, 0xFE0F, 0x20, 0x20] @
                       js ''Bedrock classification failed - failed open'']
                 else []) @
                [[]])
     in joinLines
          (lines2 @
           [js ''Message:'',
            message contactData,
            [],
            js ''---'',
            js ''Submitted: '' @ dateISO eng]))"

text \<open>
  \<^verbatim>\<open>sendEmail(contactData, sesClient, classificationResult)\<close>: the command sent, and the
  \<^verbatim>\<open>MessageId\<close> of the result or the thrown error.
\<close>

definition sendEmailCommand ::
  "engine \<Rightarrow> config \<Rightarrow> contactData \<Rightarrow> classificationResult option \<Rightarrow> jsvalue" where
  "sendEmailCommand eng cfg contactData classificationResult =
    (let subject = generateSubject eng cfg (message contactData) classificationResult;
         b = formatEmailBody eng contactData classificationResult;
         replyTo = name contactData @ js '' <'' @ email contactData @ js ''>''
     in JObj
          [(js ''Destination'', JObj [(js ''ToAddresses'', JArr [JStr (toAddress cfg)])]),
           (js ''Message'', JObj
              [(js ''Body'', JObj
                  [(js ''Text'', JObj
                      [(js ''Data'', JStr b), (js ''Charset'', JStr (js ''UTF-8''))])]),
               (js ''Subject'', JObj
                  [(js ''Data'', JStr subject), (js ''Charset'', JStr (js ''UTF-8''))])]),
           (js ''Source'', JStr (fromAddress cfg)),
           (js ''ReplyToAddresses'', JArr [JStr replyTo])])"

definition sendEmail ::
  "engine \<Rightarrow> config \<Rightarrow> clients \<Rightarrow> contactData \<Rightarrow> classificationResult option
     \<Rightarrow> (exn + jsvalue) \<times> effect list" where
  "sendEmail eng cfg cl contactData classificationResult =
    (let command = sendEmailCommand eng cfg contactData classificationResult
     in (andThen (sesSend cl command) (\<lambda>result. getProp eng result (js ''MessageId'')),
         [SesSend command]))"

section \<open>Classification\<close>

definition prompt :: "contactData \<Rightarrow> jsstring" where
  \<open>prompt contactData =
     js ''Analyze this contact form submission and classify it. Respond ONLY with valid JSON in this exact format:\<newline>'' @
     js ''{"classification": "LEGITIMATE|SPAM|SALES|GIBBERISH", "confidence": 0.0-1.0, "reason": "brief explanation"}\<newline>'' @
     js ''\<newline>'' @
     js ''Classifications:\<newline>'' @
     js ''- LEGITIMATE: Real person with genuine inquiry or feedback\<newline>'' @
     js ''- SPAM: Automated spam, phishing attempts, or malicious content\<newline>'' @
     js ''- SALES: Someone trying to sell services, products, or SEO services\<newline>'' @
     js ''- GIBBERISH: Random text, keyboard mashing, or nonsensical content\<newline>'' @
     js ''\<newline>'' @
     js ''Submission:\<newline>'' @
     js ''Name: '' @ name contactData @ js ''\<newline>'' @
     js ''Email: '' @ email contactData @ js ''\<newline>'' @
     js ''Phone: '' @ phone contactData @ js ''\<newline>'' @
     js ''Message: '' @ message contactData\<close>

definition invokeModelCommand :: "engine \<Rightarrow> config \<Rightarrow> contactData \<Rightarrow> jsvalue" where
  "invokeModelCommand eng cfg contactData =
    (let payload = JObj
           [(js ''anthropic_version'', JStr (js ''bedrock-2023-05-31'')),
            (js ''max_tokens'', JNum (Num 200)),
            (js ''messages'', JArr
               [JObj [(js ''role'', JStr (js ''user'')),
                      (js ''content'', JArr
                         [JObj [(js ''type'', JStr (js ''text'')),
                                (js ''text'', JStr (prompt contactData))]])]])]
     in JObj
          [(js ''modelId'', JStr (spamModelId cfg)),
           (js ''contentType'', JStr (js ''application/json'')),
           (js ''body'', JStr (jsonStringify eng payload))])"

text \<open>\<^verbatim>\<open>text.trim()\<close> on a value: a TypeError unless the value is a string.\<close>

fun callTrim :: "engine \<Rightarrow> jsvalue \<Rightarrow> exn + jsstring" where
  "callTrim eng (JStr s) = Inr (trim s)"
| "callTrim eng v = Inl (typeError eng (js ''trim''))"

text \<open>
  \<^verbatim>\<open>.replace(/^```(?:json)?\n/, '')\<close> and \<^verbatim>\<open>.replace(/\n```$/, '')\<close>: the opening
  and the closing fence.
\<close>

definition removeOpeningFence :: "jsstring \<Rightarrow> jsstring" where
  "removeOpeningFence s =
     (if startsWith s (js ''```json\<newline>'') then drop 8 s
      else if startsWith s (js ''```\<newline>'') then drop 4 s
      else s)"

definition removeClosingFence :: "jsstring \<Rightarrow> jsstring" where
  "removeClosingFence s =
     (if endsWith s (js ''\<newline>```'') then take (length s - 4) s else s)"

text \<open>The \<^verbatim>\<open>try\<close> block of \<^verbatim>\<open>classifySubmission\<close>.\<close>

definition classifyTry ::
  "engine \<Rightarrow> config \<Rightarrow> clients \<Rightarrow> contactData \<Rightarrow> exn + classificationResult" where
  "classifyTry eng cfg cl contactData =
     andThen (bedrockSend cl (invokeModelCommand eng cfg contactData)) (\<lambda>responseBytes.
     andThen (jsonParse eng (utf8Decode eng responseBytes)) (\<lambda>responseBody.
     andThen (getProp eng responseBody (js ''content'')) (\<lambda>content.
     andThen (getIndex0 eng content) (\<lambda>first.
     andThen (getProp eng first (js ''text'')) (\<lambda>txt.
     andThen (callTrim eng txt) (\<lambda>classificationText0.
     let classificationText =
           (if startsWith classificationText0 (js ''```'')
            then removeClosingFence (removeOpeningFence classificationText0)
            else classificationText0)
     in
     andThen (jsonParse eng classificationText) (\<lambda>result.
     andThen (getProp eng result (js ''classification'')) (\<lambda>c.
     andThen (getProp eng result (js ''confidence'')) (\<lambda>p.
     andThen (getProp eng result (js ''reason'')) (\<lambda>r.
     Inr \<lparr> classification = c, confidence = p, reason = r, failedOpen = False \<rparr>))))))))))"

text \<open>
  \<^verbatim>\<open>classifySubmission(contactData, bedrockClient)\<close>: the \<^verbatim>\<open>catch\<close> turns every
  throw of the block into the fail-open result.
\<close>

definition classifySubmission ::
  "engine \<Rightarrow> config \<Rightarrow> clients \<Rightarrow> contactData \<Rightarrow> classificationResult \<times> effect list" where
  "classifySubmission eng cfg cl contactData =
    (case classifyTry eng cfg cl contactData of
       Inr result \<Rightarrow> (result, [BedrockSend (invokeModelCommand eng cfg contactData)])
     | Inl error \<Rightarrow>
         (\<lparr> classification = JStr (js ''LEGITIMATE''),
            confidence = JNum (Num 0),
            reason = JStr (js ''Classification error: '' @ errMessage error),
            failedOpen = True \<rparr>,
          [BedrockSend (invokeModelCommand eng cfg contactData),
           ConsoleError (js ''Spam classification failed, failing open'')
             (JObj [(js ''error'', JStr (errMessage error))])]))"

section \<open>The record of a blocked submission\<close>

text \<open>\<^verbatim>\<open>event.requestContext?.a?.b\<close>\<close>

definition requestContextProp :: "engine \<Rightarrow> jsvalue \<Rightarrow> jsstring \<Rightarrow> jsstring \<Rightarrow> exn + jsvalue" where
  "requestContextProp eng event a b =
     andThen (getProp eng event (js ''requestContext'')) (\<lambda>rc. Inr (optProp (optProp rc a) b))"

text \<open>
  \<^verbatim>\<open>event.requestContext?.http?.sourceIp || event.requestContext?.identity?.sourceIp || 'unknown'\<close>
\<close>

definition ipAddress :: "engine \<Rightarrow> jsvalue \<Rightarrow> exn + jsvalue" where
  "ipAddress eng event =
     andThen (requestContextProp eng event (js ''http'') (js ''sourceIp'')) (\<lambda>ip1.
     andThen (if truthy ip1 then Inr ip1
              else requestContextProp eng event (js ''identity'') (js ''sourceIp'')) (\<lambda>ip2.
     Inr (jsOr ip2 (JStr (js ''unknown'')))))"

definition putCommand ::
  "engine \<Rightarrow> config \<Rightarrow> contactData \<Rightarrow> classificationResult \<Rightarrow> jsvalue \<Rightarrow> jsvalue" where
  "putCommand eng cfg contactData cr ip =
    (let submissionId = randomUUID eng;
         timestamp = dateNow eng;
         ttl = timestamp div 1000 + (90 * 24 * 60 * 60);
         item = JObj
           [(js ''submissionId'', JStr submissionId),
            (js ''timestamp'', JNum (Num (of_int timestamp))),
            (js ''ttl'', JNum (Num (of_int ttl))),
            (js ''name'', JStr (name contactData)),
            (js ''email'', JStr (email contactData)),
            (js ''phone'', JStr (phone contactData)),
            (js ''message'', JStr (message contactData)),
            (js ''classification'', classification cr),
            (js ''confidence'', confidence cr),
            (js ''reason'', reason cr),
            (js ''ipAddress'', ip),
            (js ''blockedAt'', JStr (dateISO eng))]
     in JObj [(js ''TableName'', JStr (blockedSubmissionsTable cfg)), (js ''Item'', item)])"

text \<open>
  \<^verbatim>\<open>logBlockedSubmission(contactData, classificationResult, event, dynamoClient)\<close>:
  the submission id, or \<^verbatim>\<open>null\<close> when anything in the \<^verbatim>\<open>try\<close> block throws.
\<close>

definition logBlockedSubmission ::
  "engine \<Rightarrow> config \<Rightarrow> clients \<Rightarrow> contactData \<Rightarrow> classificationResult \<Rightarrow> jsvalue
     \<Rightarrow> jsvalue \<times> effect list" where
  "logBlockedSubmission eng cfg cl contactData cr event =
    (let caught = (\<lambda>error.
           ConsoleError (js ''Failed to log blocked submission to DynamoDB'')
             (JObj [(js ''error'', JStr (errMessage error)),
                    (js ''stack'', JStr (errStack error))]))
     in
     case ipAddress eng event of
       Inl error \<Rightarrow> (JNull, [caught error])
     | Inr ip \<Rightarrow>
         let command = putCommand eng cfg contactData cr ip in
         (case dynamoSend cl command of
            Inl error \<Rightarrow> (JNull, [DynamoSend command, caught error])
          | Inr u \<Rightarrow> (JStr (randomUUID eng), [DynamoSend command])))"

section \<open>The handler\<close>

text \<open>
  The \<^verbatim>\<open>log\<close> closure of the handler: one line of JSON on the console, with the
  request id of the context.
\<close>

definition requestId :: "jsvalue \<Rightarrow> jsvalue" where
  "requestId context =
     jsOr (jsOr (optProp context (js ''awsRequestId'')) (optProp context (js ''requestId'')))
          (JStr (js ''local''))"

definition logLine ::
  "engine \<Rightarrow> jsvalue \<Rightarrow> string \<Rightarrow> string \<Rightarrow> (jsstring \<times> jsvalue) list \<Rightarrow> effect" where
  "logLine eng context level msg data =
     ConsoleLog (jsonStringify eng (JObj (spread
       [(js ''level'', JStr (js level)),
        (js ''requestId'', requestId context),
        (js ''message'', JStr (js msg))]
       data)))"

text \<open>
  \<^verbatim>\<open>event.httpMethod === 'OPTIONS' || event.requestContext?.http?.method === 'OPTIONS'\<close>
\<close>

definition isPreflight :: "engine \<Rightarrow> jsvalue \<Rightarrow> exn + bool" where
  "isPreflight eng event =
     andThen (getProp eng event (js ''httpMethod'')) (\<lambda>m.
       if m = JStr (js ''OPTIONS'') then Inr True
       else andThen (requestContextProp eng event (js ''http'') (js ''method'')) (\<lambda>m'.
              Inr (m' = JStr (js ''OPTIONS''))))"

text \<open>\<^verbatim>\<open>contentType.includes(s)\<close>, of a string or of an array.\<close>

fun callIncludes :: "engine \<Rightarrow> jsvalue \<Rightarrow> jsstring \<Rightarrow> exn + bool" where
  "callIncludes eng (JStr s) p = Inr (strIncludes s p)"
| "callIncludes eng (JArr xs) p = Inr (JStr p \<in> set xs)"
| "callIncludes eng v p = Inl (typeError eng (js ''includes''))"

text \<open>\<^verbatim>\<open>Object.fromEntries(params.entries())\<close>: the last value of a repeated key stays.\<close>

definition fromEntries :: "(jsstring \<times> jsstring) list \<Rightarrow> jsvalue" where
  "fromEntries es = JObj (spread [] (map (\<lambda>(k, v). (k, JStr v)) es))"

text \<open>
  The \<^verbatim>\<open>try\<close> block that parses the request body: the decoded data with the line
  logged, or the thrown error.
\<close>

definition parseBody ::
  "engine \<Rightarrow> jsvalue \<Rightarrow> jsvalue \<Rightarrow> exn + (jsvalue \<times> effect list)" where
  "parseBody eng context event =
     andThen (getProp eng event (js ''body'')) (\<lambda>b.
     andThen (getProp eng event (js ''isBase64Encoded'')) (\<lambda>isBase64.
     andThen (if truthy isBase64
              then andThen (base64Decode eng b) (\<lambda>d. Inr (JStr d))
              else Inr b) (\<lambda>decodedBody.
     andThen (getProp eng event (js ''headers'')) (\<lambda>hs.
     let contentType =
           jsOr (jsOr (optProp hs (js ''content-type'')) (optProp hs (js ''Content-Type'')))
                (JStr [])
     in
     andThen (callIncludes eng contentType (js ''application/x-www-form-urlencoded'')) (\<lambda>form.
       if form
       then andThen (urlEntries eng decodedBody) (\<lambda>es.
              Inr (fromEntries es,
                   [logLine eng context ''info'' ''Parsed URL-encoded form data'' []]))
       else andThen (if typeof decodedBody = ''string''
                     then jsonParse eng (strOf decodedBody)
                     else Inr decodedBody) (\<lambda>data.
              Inr (data, [logLine eng context ''info'' ''Parsed JSON data'' []])))))))"

text \<open>The two constants of the decision, named as in the source.\<close>

definition isSpamOrGibberish :: "classificationResult \<Rightarrow> bool" where
  "isSpamOrGibberish cr \<longleftrightarrow>
     classification cr \<in> set [JStr (js ''SPAM''), JStr (js ''GIBBERISH'')]"

definition isHighConfidence :: "engine \<Rightarrow> config \<Rightarrow> classificationResult \<Rightarrow> bool" where
  "isHighConfidence eng cfg cr \<longleftrightarrow>
     js_ge (toNumber eng (confidence cr)) (spamConfidenceThreshold cfg)"

definition successBody :: jsvalue where
  "successBody = JObj
     [(js ''message'', JStr (js ''Thank you for contacting us! Your message has been sent.'')),
      (js ''success'', JBool True)]"

text \<open>
  The end of the \<^verbatim>\<open>try\<close> block: the email is sent, and a throw leaves the block.
\<close>

definition sendAndRespond ::
  "engine \<Rightarrow> config \<Rightarrow> clients \<Rightarrow> jsvalue \<Rightarrow> contactData \<Rightarrow> classificationResult option
     \<Rightarrow> (exn + response) \<times> effect list" where
  "sendAndRespond eng cfg cl context contactData classificationResult =
    (case sendEmail eng cfg cl contactData classificationResult of
       (Inl error, es) \<Rightarrow> (Inl error, es)
     | (Inr messageId, es) \<Rightarrow>
         (Inr (createResponse eng cfg 200 successBody []),
          es @ [logLine eng context ''info'' ''Email sent successfully''
                  [(js ''messageId'', messageId)]]))"

text \<open>The spam detection and everything after it, for a validated submission.\<close>

definition detectAndSend ::
  "engine \<Rightarrow> config \<Rightarrow> clients \<Rightarrow> jsvalue \<Rightarrow> jsvalue \<Rightarrow> contactData
     \<Rightarrow> (exn + response) \<times> effect list" where
  "detectAndSend eng cfg cl event context contactData =
    (if spamDetectionEnabled cfg
     then
       (case classifySubmission eng cfg cl contactData of (cr, es1) \<Rightarrow>
          let es2 = es1 @
                [logLine eng context ''info'' ''Spam classification completed''
                   [(js ''classification'', classification cr),
                    (js ''confidence'', confidence cr),
                    (js ''failedOpen'', JBool (failedOpen cr))]]
          in
          if isSpamOrGibberish cr \<and> isHighConfidence eng cfg cr
          then
            (case logBlockedSubmission eng cfg cl contactData cr event of
               (submissionId, es3) \<Rightarrow>
                 (Inr (createResponse eng cfg 200 successBody []),
                  es2 @ es3 @
                  [logLine eng context ''warn'' ''Blocked spam submission''
                     [(js ''submissionId'', submissionId),
                      (js ''classification'', classification cr),
                      (js ''confidence'', confidence cr),
                      (js ''reason'', reason cr)]]))
          else
            (case sendAndRespond eng cfg cl context contactData (Some cr) of
               (r, es3) \<Rightarrow> (r, es2 @ es3)))
     else sendAndRespond eng cfg cl context contactData None)"

text \<open>The \<^verbatim>\<open>try\<close> block of the handler: the response returned, or the error thrown.\<close>

definition handlerTry ::
  "engine \<Rightarrow> config \<Rightarrow> clients \<Rightarrow> jsvalue \<Rightarrow> jsvalue \<Rightarrow> (exn + response) \<times> effect list" where
  "handlerTry eng cfg cl event context =
    (case isPreflight eng event of
       Inl error \<Rightarrow> (Inl error, [])
     | Inr True \<Rightarrow> (Inr (createResponse eng cfg 200 (JObj [(js ''message'', JStr (js ''OK''))]) []), [])
     | Inr False \<Rightarrow>
         let es0 = [logLine eng context ''info'' ''Processing contact form submission'' []] in
         (case parseBody eng context event of
            Inl error \<Rightarrow>
              (Inr (createResponse eng cfg 400
                      (JObj [(js ''error'', JStr (js ''Invalid request format''))]) []),
               es0 @ [logLine eng context ''warn'' ''Invalid request body''
                        [(js ''error'', JStr (errMessage error))]])
          | Inr (data, es1) \<Rightarrow>
              (case validateContactForm eng (VALIDATION eng cfg) data of
                 Inl (ValidationError fld msg) \<Rightarrow>
                   (Inr (createResponse eng cfg 400
                           (JObj [(js ''error'', JStr msg), (js ''field'', JStr fld)]) []),
                    es0 @ es1 @
                    [logLine eng context ''warn'' ''Validation failed''
                       [(js ''field'', JStr fld), (js ''message'', JStr msg)]])
               | Inl error \<Rightarrow> (Inl error, es0 @ es1)
               | Inr contactData \<Rightarrow>
                   (case detectAndSend eng cfg cl event context contactData of
                      (r, es2) \<Rightarrow> (r, es0 @ es1 @ es2)))))"

text \<open>
  \<^verbatim>\<open>handler(event, context, sesClient, bedrockClient, dynamoClient)\<close>: the response, and
  what the invocation did. The outer \<^verbatim>\<open>catch\<close> answers every throw of the block.
\<close>

definition handler ::
  "engine \<Rightarrow> config \<Rightarrow> clients \<Rightarrow> jsvalue \<Rightarrow> jsvalue \<Rightarrow> response \<times> effect list" where
  "handler eng cfg cl event context =
    (case handlerTry eng cfg cl event context of
       (Inr r, es) \<Rightarrow> (r, es)
     | (Inl error, es) \<Rightarrow>
         (createResponse eng cfg 500
            (JObj [(js ''error'', JStr (js ''Unable to send message. Please try again later.''))]) [],
          es @ [logLine eng context ''error'' ''Failed to process contact form''
                  [(js ''error'', JStr (errMessage error)),
                   (js ''stack'', JStr (errStack error))]]))"

section \<open>Notions used in the statements\<close>

text \<open>
  None of the definitions of this section is part of the program: they name what the
  properties below talk about.
\<close>

text \<open>A field value with whitespace \<open>a\<close> put before it and \<open>b\<close> after it.\<close>

fun pad :: "jsstring \<Rightarrow> jsstring \<Rightarrow> jsvalue \<Rightarrow> jsvalue" where
  "pad a b (JStr s) = JStr (a @ s @ b)"
| "pad a b v = v"

definition fieldNames :: "jsstring list" where
  "fieldNames = [js ''email'', js ''name'', js ''phone'', js ''message'']"








text \<open>
  The calls to the three clients among the effects of an invocation, in order; the
  submission the handler hands to spam detection, if the request gets that far; the
  decision to block; the fail-open result; the response of the outer \<^verbatim>\<open>catch\<close>.
\<close>

fun isCall :: "effect \<Rightarrow> bool" where
  "isCall (ConsoleLog l) = False"
| "isCall (ConsoleError m d) = False"
| "isCall (BedrockSend c) = True"
| "isCall (DynamoSend c) = True"
| "isCall (SesSend c) = True"

definition calls :: "effect list \<Rightarrow> effect list" where
  "calls es = filter isCall es"

definition validated :: "engine \<Rightarrow> config \<Rightarrow> jsvalue \<Rightarrow> jsvalue \<Rightarrow> contactData option" where
  "validated eng cfg event context =
    (case isPreflight eng event of
       Inr False \<Rightarrow>
         (case parseBody eng context event of
            Inr (data, es) \<Rightarrow>
              (case validateContactForm eng (VALIDATION eng cfg) data of
                 Inr contactData \<Rightarrow> Some contactData
               | Inl error \<Rightarrow> None)
          | Inl error \<Rightarrow> None)
     | _ \<Rightarrow> None)"

definition failOpenResult :: "exn \<Rightarrow> classificationResult" where
  "failOpenResult error = \<lparr>
     classification = JStr (js ''LEGITIMATE''),
     confidence = JNum (Num 0),
     reason = JStr (js ''Classification error: '' @ errMessage error),
     failedOpen = True \<rparr>"

definition serverError :: "engine \<Rightarrow> config \<Rightarrow> response" where
  "serverError eng cfg = createResponse eng cfg 500
     (JObj [(js ''error'', JStr (js ''Unable to send message. Please try again later.''))]) []"

definition blocks :: "engine \<Rightarrow> config \<Rightarrow> classificationResult \<Rightarrow> bool" where
  "blocks eng cfg cr \<longleftrightarrow> isSpamOrGibberish cr \<and> isHighConfidence eng cfg cr"

section \<open>Stand-ins for the engine and the clients\<close>

text \<open>
  Closed instances need a concrete engine and concrete clients, as the test suite of
  the source needs its mock clients. \<open>testStringify\<close> prints a value as JSON without
  escaping, \<open>testParse\<close> knows the JSON texts used below, and the Unicode tables of
  \<open>testEngine\<close> cover ASCII.
\<close>

fun commaJoin :: "jsstring list \<Rightarrow> jsstring" where
  "commaJoin [] = []"
| "commaJoin [x] = x"
| "commaJoin (x # xs) = x @ 0x2C # commaJoin xs"

fun testStringify :: "jsvalue \<Rightarrow> jsstring" where
  "testStringify JUndefined = js ''undefined''"
| "testStringify JNull = js ''null''"
| "testStringify (JBool b) = (if b then js ''true'' else js ''false'')"
| "testStringify (JNum n) = (case n of Num r \<Rightarrow> js (showInt \<lfloor>r\<rfloor>) | _ \<Rightarrow> js ''null'')"
| "testStringify (JStr s) = 0x22 # s @ [0x22]"
| "testStringify (JArr xs) = 0x5B # commaJoin (map testStringify xs) @ [0x5D]"
| "testStringify (JObj kvs) =
     0x7B # commaJoin (map (\<lambda>(k, v). 0x22 # k @ [0x22, 0x3A] @ testStringify v) kvs) @ [0x7D]"

definition requestBody :: jsstring where
  \<open>requestBody = js ''{"email":"a@b.c","name":"Al","phone":"1","message":"Hi"}''\<close>

definition submission :: jsvalue where
  "submission = JObj
     [(js ''email'', JStr (js ''a@b.c'')),
      (js ''name'', JStr (js ''Al'')),
      (js ''phone'', JStr (js ''1'')),
      (js ''message'', JStr (js ''Hi''))]"

definition spamText :: jsstring where
  \<open>spamText = js ''{"classification":"SPAM","confidence":0.95,"reason":"x"}''\<close>

definition spamResult :: jsvalue where
  "spamResult = JObj
     [(js ''classification'', JStr (js ''SPAM'')),
      (js ''confidence'', JNum (Num (95 / 100))),
      (js ''reason'', JStr (js ''x''))]"

definition escapeQuotes :: "jsstring \<Rightarrow> jsstring" where
  "escapeQuotes s = concat (map (\<lambda>c. if c = 0x22 then [0x5C, 0x22] else [c]) s)"

definition modelResponseText :: "jsstring \<Rightarrow> jsstring" where
  \<open>modelResponseText t = js ''{"content":[{"text":"'' @ escapeQuotes t @ js ''"}]}''\<close>

definition modelResponse :: "jsstring \<Rightarrow> jsvalue" where
  "modelResponse t = JObj [(js ''content'', JArr [JObj [(js ''text'', JStr t)]])]"

definition badNameBody :: jsstring where
  \<open>badNameBody = js ''{"email":"a@b.c","name":"J1","phone":"1","message":"Hi"}''\<close>

definition badNameSubmission :: jsvalue where
  "badNameSubmission = JObj
     [(js ''email'', JStr (js ''a@b.c'')),
      (js ''name'', JStr (js ''J1'')),
      (js ''phone'', JStr (js ''1'')),
      (js ''message'', JStr (js ''Hi''))]"

definition testParse :: "jsstring \<Rightarrow> exn + jsvalue" where
  "testParse s =
     (if s = requestBody then Inr submission
      else if s = badNameBody then Inr badNameSubmission
      else if s = spamText then Inr spamResult
      else if s = modelResponseText spamText then Inr (modelResponse spamText)
      else Inl (Error (js ''Unexpected token'') []))"

definition testEngine :: engine where
  "testEngine = \<lparr>
     uniL = (\<lambda>c. (0x41 \<le> c \<and> c \<le> 0x5A) \<or> (0x61 \<le> c \<and> c \<le> 0x7A)),
     uniN = (\<lambda>c. 0x30 \<le> c \<and> c \<le> 0x39),
     uniP = (\<lambda>c. c = 0x21 \<or> c = 0x2C \<or> c = 0x2E \<or> c = 0x3F),
     uniZ = (\<lambda>c. c = 0x20),
     typeError = (\<lambda>k. Error (js ''Cannot read properties: '' @ k) []),
     jsonParse = testParse,
     jsonStringify = testStringify,
     base64Decode = (\<lambda>v. Inl (Error (js ''not a string'') [])),
     urlEntries = (\<lambda>v. Inr []),
     utf8Decode = map ucast,
     toStringOther = testStringify,
     toNumberOther = (\<lambda>v. NaN),
     percentFixed1 = (\<lambda>v. js ''0.0''),
     randomUUID = js ''00000000-0000-4000-8000-000000000000'',
     dateNow = 0,
     dateISO = js ''1970-01-01T00:00:00.000Z'' \<rparr>"

definition testEvent :: jsvalue where
  "testEvent = JObj [(js ''body'', JStr requestBody)]"

definition testContext :: jsvalue where
  "testContext = JObj [(js ''awsRequestId'', JStr (js ''test-request-id''))]"

definition testConfig :: config where
  "testConfig = defaultConfig \<lparr> spamDetectionEnabled := True \<rparr>"

definition mockClients :: "jsstring \<Rightarrow> clients" where
  "mockClients modelText = \<lparr>
     sesSend = (\<lambda>c. Inr (JObj [(js ''MessageId'', JStr (js ''test-message-id''))])),
     bedrockSend = (\<lambda>c. Inr (map ucast (modelResponseText modelText))),
     dynamoSend = (\<lambda>c. Inr ()) \<rparr>"

definition failingBedrock :: clients where
  "failingBedrock =
     (mockClients []) \<lparr> bedrockSend := (\<lambda>c. Inl (Error (js ''Bedrock unavailable'') [])) \<rparr>"

definition failingDynamo :: clients where
  "failingDynamo =
     (mockClients spamText) \<lparr> dynamoSend := (\<lambda>c. Inl (Error (js ''DynamoDB error'') [])) \<rparr>"

definition failingSes :: clients where
  "failingSes = (mockClients []) \<lparr> sesSend := (\<lambda>c. Inl (Error (js ''SES Error'') [])) \<rparr>"


definition preflightEvent :: jsvalue where
  "preflightEvent = JObj [(js ''httpMethod'', JStr (js ''OPTIONS'')), (js ''body'', JStr (js ''not json''))]"

definition paddedSubmission :: jsvalue where
  "paddedSubmission = JObj
     [(js ''email'', JStr (js '' a@b.c '')),
      (js ''name'', JStr (js '' Al '')),
      (js ''phone'', JStr (js '' 1 '')),
      (js ''message'', JStr (js '' Hi ''))]"

definition spamClassification :: classificationResult where
  "spamClassification = \<lparr>
     classification = JStr (js ''SPAM''),
     confidence = JNum (Num (95 / 100)),
     reason = JStr (js ''x''),
     failedOpen = False \<rparr>"

definition testContact :: contactData where
  "testContact = \<lparr> email = js ''a@b.c'', name = js ''Al'', phone = js ''1'', message = js ''Hi'' \<rparr>"

section \<open>Properties of validation\<close>

lemma dropWhile_all: "list_all P a \<Longrightarrow> dropWhile P (a @ s) = dropWhile P s"
  by (induction a) auto

lemma dropWhile_all_Nil: "list_all P a \<Longrightarrow> dropWhile P a = []"
  by (induction a) auto

lemma trim_pad:
  assumes "list_all isWhiteSpace a" "list_all isWhiteSpace b"
  shows "trim (a @ s @ b) = trim s"
proof -
  have 1: "dropWhile isWhiteSpace (a @ s @ b) = dropWhile isWhiteSpace (s @ b)"
    using assms(1) by (rule dropWhile_all)
  have rb: "list_all isWhiteSpace (rev b)" using assms(2) by (simp add: list_all_iff)
  show ?thesis
  proof (cases "list_all isWhiteSpace s")
    case True
    then have "list_all isWhiteSpace (s @ b)" using assms(2) by simp
    then have e1: "dropWhile isWhiteSpace (s @ b) = []" by (rule dropWhile_all_Nil)
    have e2: "dropWhile isWhiteSpace s = []" using True by (rule dropWhile_all_Nil)
    show ?thesis by (simp only: trim_def 1 e1 e2)
  next
    case False
    then have "\<exists>x\<in>set s. \<not> isWhiteSpace x" by (simp add: list_all_iff)
    then have "dropWhile isWhiteSpace (s @ b) = dropWhile isWhiteSpace s @ b"
      by (auto simp: dropWhile_append1)
    then show ?thesis unfolding trim_def 1 using rb by (simp add: dropWhile_all)
  qed
qed

lemma validateField_string:
  "validateField (JStr s) f sch =
    (if s = [] then Inl (ValidationError f (f @ js '' is required''))
     else if trim s = [] then Inl (ValidationError f (f @ js '' cannot be empty''))
     else if gtLength (length (trim s)) (maxLength sch)
     then Inl (ValidationError f
            (f @ js '' must be less than '' @ numberToString (maxLength sch) @ js '' characters''))
     else if (case pattern sch of None \<Rightarrow> False | Some p \<Rightarrow> \<not> regexTest p (trim s))
     then Inl (ValidationError f (f @ js '' contains invalid characters''))
     else Inr (trim s))"
  by (simp add: validateField_def Let_def)

lemma validateField_other:
  "(\<forall>s. v \<noteq> JStr s) \<Longrightarrow> validateField v f sch = Inl (ValidationError f (f @ js '' is required''))"
  by (cases v) (simp_all add: validateField_def)

lemma less_than_message_distinct:
  "js '' must be less than '' @ x \<noteq> js '' is required''"
  "js '' must be less than '' @ x \<noteq> js '' cannot be empty''"
  "js '' must be less than '' @ x \<noteq> js '' contains invalid characters''"
  "js '' is required'' \<noteq> js '' must be less than '' @ x"
  "js '' cannot be empty'' \<noteq> js '' must be less than '' @ x"
  "js '' contains invalid characters'' \<noteq> js '' must be less than '' @ x"
  by (simp_all add: js_def)

text \<open>
  C10. \<^verbatim>\<open>validateField\<close> accepts a value whose trimmed length is exactly
  \<^verbatim>\<open>maxLength\<close> (when it is not empty and the pattern, if any, matches), and it throws
  the error whose message reads "<field> must be less than N characters" exactly for the
  non-empty strings whose trimmed length is strictly greater than \<^verbatim>\<open>maxLength\<close>.
\<close>

theorem validateField_length_boundary:
  "(s \<noteq> [] \<and> maxLength sch = Some (int (length (trim s))) \<and> trim s \<noteq> [] \<and>
      (case pattern sch of None \<Rightarrow> True | Some p \<Rightarrow> regexTest p (trim s))
      \<longrightarrow> validateField (JStr s) f sch = Inr (trim s)) \<and>
   (validateField v f sch =
      Inl (ValidationError f
        (f @ js '' must be less than '' @ numberToString (maxLength sch) @ js '' characters''))
    \<longleftrightarrow> (\<exists>s. v = JStr s \<and> s \<noteq> [] \<and> trim s \<noteq> [] \<and>
              gtLength (length (trim s)) (maxLength sch)))"
proof (intro conjI impI)
  assume "s \<noteq> [] \<and> maxLength sch = Some (int (length (trim s))) \<and> trim s \<noteq> [] \<and>
      (case pattern sch of None \<Rightarrow> True | Some p \<Rightarrow> regexTest p (trim s))"
  then show "validateField (JStr s) f sch = Inr (trim s)"
    by (auto simp: validateField_string split: option.splits)
next
  show "validateField v f sch =
      Inl (ValidationError f
        (f @ js '' must be less than '' @ numberToString (maxLength sch) @ js '' characters''))
    \<longleftrightarrow> (\<exists>s. v = JStr s \<and> s \<noteq> [] \<and> trim s \<noteq> [] \<and>
              gtLength (length (trim s)) (maxLength sch))"
  proof (cases "\<exists>s. v = JStr s")
    case True
    then obtain s where v: "v = JStr s" by blast
    show ?thesis unfolding v by (simp add: validateField_string less_than_message_distinct)
  next
    case False
    then show ?thesis by (simp add: validateField_other less_than_message_distinct)
  qed
qed

lemma andThen_simps [simp]:
  "andThen (Inl e) f = Inl e"
  "andThen (Inr v) f = f v"
  by (simp_all add: andThen_def)

lemma andThen_eq_Inr: "andThen x f = Inr r \<longleftrightarrow> (\<exists>v. x = Inr v \<and> f v = Inr r)"
  by (cases x) simp_all

lemma andThen_eq_Inl: "andThen x f = Inl e \<longleftrightarrow> (x = Inl e \<or> (\<exists>v. x = Inr v \<and> f v = Inl e))"
  by (cases x) simp_all

lemma getProp_simps:
  "nullish v \<Longrightarrow> getProp eng v k = Inl (typeError eng k)"
  "\<not> nullish v \<Longrightarrow> getProp eng v k = Inr (getOwn v k)"
  by (simp_all add: getProp_def)

lemma validateContactForm_nullish:
  "nullish data \<Longrightarrow> validateContactForm eng V data = Inl (typeError eng (js ''email''))"
  by (simp add: validateContactForm_def getProp_simps)

lemma validateContactForm_object:
  "\<not> nullish data \<Longrightarrow> validateContactForm eng V data =
     andThen (validateField (getOwn data (js ''email'')) (js ''email'') (v_email V)) (\<lambda>e.
     andThen (validateField (getOwn data (js ''name'')) (js ''name'') (v_name V)) (\<lambda>n.
     andThen (validateField (getOwn data (js ''phone'')) (js ''phone'') (v_phone V)) (\<lambda>p.
     andThen (validateField (getOwn data (js ''message'')) (js ''message'') (v_message V)) (\<lambda>m.
     Inr \<lparr> email = e, name = n, phone = p, message = m \<rparr>))))"
  by (simp add: validateContactForm_def getProp_simps)

lemma validateField_Inr:
  "validateField v f sch = Inr t \<Longrightarrow> \<exists>s. v = JStr s \<and> s \<noteq> [] \<and> t = trim s"
  by (cases v) (auto simp: validateField_string validateField_other split: if_splits)

lemma validateField_pad:
  assumes "s \<noteq> []" "list_all isWhiteSpace a" "list_all isWhiteSpace b"
  shows "validateField (JStr (a @ s @ b)) f sch = validateField (JStr s) f sch"
proof -
  have t: "trim (a @ s @ b) = trim s" using assms(2,3) by (rule trim_pad)
  show ?thesis unfolding validateField_string t using assms(1) by simp
qed

lemma validateField_pad_value:
  assumes "validateField v f sch = Inr t" "list_all isWhiteSpace a" "list_all isWhiteSpace b"
  shows "validateField (pad a b v) f sch = Inr t \<and> t = trim (strOf v)"
proof -
  from validateField_Inr [OF assms(1)] obtain s where s: "v = JStr s" "s \<noteq> []" "t = trim s"
    by blast
  show ?thesis using assms s by (simp add: validateField_pad)
qed

text \<open>
  C8. If a submission is accepted, then so is every submission whose four fields are the
  same strings with whitespace added before and after, and with the same result; the
  result holds the trimmed value of each field.
\<close>

theorem validate_padded:
  assumes ok: "validateContactForm eng V data = Inr r"
    and padded: "\<forall>k \<in> set fieldNames.
           list_all isWhiteSpace (a k) \<and> list_all isWhiteSpace (b k) \<and>
           getOwn data' k = pad (a k) (b k) (getOwn data k)"
  shows "validateContactForm eng V data' = Inr r \<and>
         r = \<lparr> email = trim (strOf (getOwn data (js ''email''))),
               name = trim (strOf (getOwn data (js ''name''))),
               phone = trim (strOf (getOwn data (js ''phone''))),
               message = trim (strOf (getOwn data (js ''message''))) \<rparr>"
proof -
  have nn: "\<not> nullish data" using ok by (auto simp: validateContactForm_nullish)
  from ok obtain e n p m where
    e: "validateField (getOwn data (js ''email'')) (js ''email'') (v_email V) = Inr e" and
    n: "validateField (getOwn data (js ''name'')) (js ''name'') (v_name V) = Inr n" and
    p: "validateField (getOwn data (js ''phone'')) (js ''phone'') (v_phone V) = Inr p" and
    m: "validateField (getOwn data (js ''message'')) (js ''message'') (v_message V) = Inr m" and
    r: "r = \<lparr> email = e, name = n, phone = p, message = m \<rparr>"
    unfolding validateContactForm_object [OF nn] andThen_eq_Inr by auto
  have pe: "list_all isWhiteSpace (a (js ''email''))" "list_all isWhiteSpace (b (js ''email''))"
      "getOwn data' (js ''email'') = pad (a (js ''email'')) (b (js ''email'')) (getOwn data (js ''email''))"
    and pn: "list_all isWhiteSpace (a (js ''name''))" "list_all isWhiteSpace (b (js ''name''))"
      "getOwn data' (js ''name'') = pad (a (js ''name'')) (b (js ''name'')) (getOwn data (js ''name''))"
    and pp: "list_all isWhiteSpace (a (js ''phone''))" "list_all isWhiteSpace (b (js ''phone''))"
      "getOwn data' (js ''phone'') = pad (a (js ''phone'')) (b (js ''phone'')) (getOwn data (js ''phone''))"
    and pm: "list_all isWhiteSpace (a (js ''message''))" "list_all isWhiteSpace (b (js ''message''))"
      "getOwn data' (js ''message'') = pad (a (js ''message'')) (b (js ''message'')) (getOwn data (js ''message''))"
    using padded by (simp_all add: fieldNames_def)
  note E = validateField_pad_value [OF e pe(1,2)]
  note N = validateField_pad_value [OF n pn(1,2)]
  note P = validateField_pad_value [OF p pp(1,2)]
  note M = validateField_pad_value [OF m pm(1,2)]
  have "getOwn data' (js ''email'') \<noteq> JUndefined"
    using E pe(3) by (auto simp: validateField_other)
  then have nn': "\<not> nullish data'" by (cases data') auto
  have "validateContactForm eng V data' = Inr r"
    unfolding validateContactForm_object [OF nn'] pe(3) pn(3) pp(3) pm(3) r
    using E N P M by simp
  moreover have "r = \<lparr> email = trim (strOf (getOwn data (js ''email''))),
               name = trim (strOf (getOwn data (js ''name''))),
               phone = trim (strOf (getOwn data (js ''phone''))),
               message = trim (strOf (getOwn data (js ''message''))) \<rparr>"
    unfolding r using E N P M by simp
  ultimately show ?thesis by blast
qed

section \<open>Properties of the subject line\<close>


lemma ws_space: "isWhiteSpace 0x20"
  by (simp add: isWhiteSpace_def isWhiteSpaceCP_def)



lemma replaceSpaces_all_ws: "list_all isWhiteSpace s \<Longrightarrow> list_all isWhiteSpace (replaceSpaces s)"
  by (cases s) (simp_all add: ws_space dropWhile_all_Nil)











lemma trim_Nil [simp]: "trim [] = []"
  by (simp add: trim_def)








section \<open>Properties of the handler\<close>

lemma calls_simps [simp]:
  "calls [] = []"
  "calls (es @ es') = calls es @ calls es'"
  "calls (ConsoleLog l # es) = calls es"
  "calls (ConsoleError m d # es) = calls es"
  "calls (BedrockSend c # es) = BedrockSend c # calls es"
  "calls (DynamoSend c # es) = DynamoSend c # calls es"
  "calls (SesSend c # es) = SesSend c # calls es"
  "calls (logLine eng ctx lv txt dat # es) = calls es"
  by (simp_all add: calls_def logLine_def)

lemma parseBody_calls: "parseBody eng ctx event = Inr (data, es) \<Longrightarrow> calls es = []"
  by (auto simp: parseBody_def andThen_eq_Inr Let_def split: if_splits)

lemma classifySubmission_calls:
  "calls (snd (classifySubmission eng cfg cl cd)) = [BedrockSend (invokeModelCommand eng cfg cd)]"
  by (simp add: classifySubmission_def split: sum.splits)

lemma classifySubmission_fst:
  "fst (classifySubmission eng cfg cl cd) =
     (case classifyTry eng cfg cl cd of Inr r \<Rightarrow> r | Inl e \<Rightarrow> failOpenResult e)"
  by (simp add: classifySubmission_def failOpenResult_def split: sum.splits)



lemma logBlockedSubmission_object:
  assumes "ipAddress eng event = Inr ip"
  shows "logBlockedSubmission eng cfg cl cd cr event =
     (case dynamoSend cl (putCommand eng cfg cd cr ip) of
        Inl error \<Rightarrow>
          (JNull,
           [DynamoSend (putCommand eng cfg cd cr ip),
            ConsoleError (js ''Failed to log blocked submission to DynamoDB'')
              (JObj [(js ''error'', JStr (errMessage error)),
                     (js ''stack'', JStr (errStack error))])])
      | Inr u \<Rightarrow> (JStr (randomUUID eng), [DynamoSend (putCommand eng cfg cd cr ip)]))"
  using assms by (simp add: logBlockedSubmission_def Let_def)


lemma sendAndRespond_calls:
  "calls (snd (sendAndRespond eng cfg cl ctx cd cro)) = [SesSend (sendEmailCommand eng cfg cd cro)]"
  by (simp add: sendAndRespond_def sendEmail_def Let_def split: sum.splits)

lemma sendAndRespond_fst:
  "fst (sendAndRespond eng cfg cl ctx cd cro) =
     (case fst (sendEmail eng cfg cl cd cro) of
        Inl e \<Rightarrow> Inl e
      | Inr m \<Rightarrow> Inr (createResponse eng cfg 200 successBody []))"
  by (simp add: sendAndRespond_def sendEmail_def Let_def split: sum.splits)

lemma detectAndSend_disabled:
  "\<not> spamDetectionEnabled cfg \<Longrightarrow>
   detectAndSend eng cfg cl event ctx cd = sendAndRespond eng cfg cl ctx cd None"
  by (simp add: detectAndSend_def)

lemma detectAndSend_blocked:
  assumes "spamDetectionEnabled cfg" "blocks eng cfg (fst (classifySubmission eng cfg cl cd))"
  shows "fst (detectAndSend eng cfg cl event ctx cd) = Inr (createResponse eng cfg 200 successBody [])"
    and "calls (snd (detectAndSend eng cfg cl event ctx cd)) =
           BedrockSend (invokeModelCommand eng cfg cd) #
           calls (snd (logBlockedSubmission eng cfg cl cd (fst (classifySubmission eng cfg cl cd)) event))"
  using assms classifySubmission_calls [of eng cfg cl cd]
  by (auto simp: detectAndSend_def blocks_def Let_def split: prod.splits)

lemma detectAndSend_forwarded:
  assumes "spamDetectionEnabled cfg" "\<not> blocks eng cfg (fst (classifySubmission eng cfg cl cd))"
  shows "fst (detectAndSend eng cfg cl event ctx cd) =
           fst (sendAndRespond eng cfg cl ctx cd (Some (fst (classifySubmission eng cfg cl cd))))"
    and "calls (snd (detectAndSend eng cfg cl event ctx cd)) =
           [BedrockSend (invokeModelCommand eng cfg cd),
            SesSend (sendEmailCommand eng cfg cd (Some (fst (classifySubmission eng cfg cl cd))))]"
  using assms classifySubmission_calls [of eng cfg cl cd]
    sendAndRespond_calls [of eng cfg cl ctx cd "Some (fst (classifySubmission eng cfg cl cd))"]
  by (auto simp: detectAndSend_def blocks_def Let_def split: prod.splits)

lemma handler_validated:
  assumes "validated eng cfg event ctx = Some cd"
  shows "fst (handler eng cfg cl event ctx) =
           (case fst (detectAndSend eng cfg cl event ctx cd) of
              Inr r \<Rightarrow> r | Inl e \<Rightarrow> serverError eng cfg)"
    and "calls (snd (handler eng cfg cl event ctx)) = calls (snd (detectAndSend eng cfg cl event ctx cd))"
proof -
  from assms obtain data es where
    p: "isPreflight eng event = Inr False" "parseBody eng ctx event = Inr (data, es)"
       "validateContactForm eng (VALIDATION eng cfg) data = Inr cd"
    by (auto simp: validated_def split: sum.splits bool.splits prod.splits)
  have c: "calls es = []" using p(2) by (rule parseBody_calls)
  obtain r es2 where d: "detectAndSend eng cfg cl event ctx cd = (r, es2)" by (cases "detectAndSend eng cfg cl event ctx cd")
  have t: "handlerTry eng cfg cl event ctx =
        (r, [logLine eng ctx ''info'' ''Processing contact form submission'' []] @ es @ es2)"
    by (simp add: handlerTry_def p d)
  show "fst (handler eng cfg cl event ctx) =
           (case fst (detectAndSend eng cfg cl event ctx cd) of
              Inr r \<Rightarrow> r | Inl e \<Rightarrow> serverError eng cfg)"
    by (simp add: handler_def t d serverError_def split: sum.splits)
  show "calls (snd (handler eng cfg cl event ctx)) = calls (snd (detectAndSend eng cfg cl event ctx cd))"
    by (simp add: handler_def t d c split: sum.splits)
qed

lemma isPreflight_object:
  "\<not> nullish event \<Longrightarrow> isPreflight eng event =
     Inr (getOwn event (js ''httpMethod'') = JStr (js ''OPTIONS'') \<or>
          optProp (optProp (getOwn event (js ''requestContext'')) (js ''http'')) (js ''method'')
            = JStr (js ''OPTIONS''))"
  by (simp add: isPreflight_def requestContextProp_def getProp_simps)

text \<open>
  C9. An event whose \<^verbatim>\<open>httpMethod\<close> or \<^verbatim>\<open>requestContext.http.method\<close> is
  \<^verbatim>\<open>OPTIONS\<close> gets status 200 with body \<^verbatim>\<open>{message:"OK"}\<close>, and the invocation has
  no effect at all: no log line and no call to a client, whatever the rest of the event is.
\<close>

theorem options_short_circuit:
  assumes "\<not> nullish event"
    and "getOwn event (js ''httpMethod'') = JStr (js ''OPTIONS'') \<or>
         optProp (optProp (getOwn event (js ''requestContext'')) (js ''http'')) (js ''method'')
           = JStr (js ''OPTIONS'')"
  shows "handler eng cfg cl event ctx =
           (createResponse eng cfg 200 (JObj [(js ''message'', JStr (js ''OK''))]) [], []) \<and>
         statusCode (fst (handler eng cfg cl event ctx)) = 200 \<and>
         body (fst (handler eng cfg cl event ctx)) =
           jsonStringify eng (JObj [(js ''message'', JStr (js ''OK''))])"
proof -
  have "isPreflight eng event = Inr True"
    using assms by (simp add: isPreflight_object)
  then have "handler eng cfg cl event ctx =
           (createResponse eng cfg 200 (JObj [(js ''message'', JStr (js ''OK''))]) [], [])"
    by (simp add: handler_def handlerTry_def)
  then show ?thesis by (simp add: createResponse_def)
qed

lemma createResponse_plain:
  "createResponse eng cfg code b [] = \<lparr>
     statusCode = code,
     headers =
       [(js ''Content-Type'', js ''application/json''),
        (js ''Access-Control-Allow-Origin'', allowedOrigin cfg),
        (js ''Access-Control-Allow-Headers'', js ''Content-Type''),
        (js ''Access-Control-Allow-Methods'', js ''POST, OPTIONS'')],
     body = jsonStringify eng b \<rparr>"
  by (simp add: createResponse_def spread_def)

lemma blocks_iff:
  "blocks eng cfg cr \<longleftrightarrow>
     (classification cr = JStr (js ''SPAM'') \<or> classification cr = JStr (js ''GIBBERISH'')) \<and>
     js_ge (toNumber eng (confidence cr)) (spamConfidenceThreshold cfg)"
  by (auto simp: blocks_def isSpamOrGibberish_def isHighConfidence_def)

text \<open>
  C1. With spam detection enabled, the response of an invocation that blocks a validated
  submission equals the response of an invocation that forwards a validated submission
  and whose email is sent: status 200, the fixed headers, and the body
  \<^verbatim>\<open>{message:"Thank you for contacting us! Your message has been sent.", success:true}\<close>.
  The two invocations may differ in event, context, clients, clock and UUID.
\<close>

theorem blocked_and_sent_responses_identical:
  assumes "spamDetectionEnabled cfg"
    and "jsonStringify eng' = jsonStringify eng"
    and "validated eng cfg event ctx = Some cd"
    and "blocks eng cfg (fst (classifySubmission eng cfg cl cd))"
    and "validated eng' cfg event' ctx' = Some cd'"
    and "\<not> blocks eng' cfg (fst (classifySubmission eng' cfg cl' cd'))"
    and "fst (sendEmail eng' cfg cl' cd' (Some (fst (classifySubmission eng' cfg cl' cd')))) = Inr messageId"
  shows "fst (handler eng cfg cl event ctx) = fst (handler eng' cfg cl' event' ctx') \<and>
         fst (handler eng cfg cl event ctx) = \<lparr>
           statusCode = 200,
           headers =
             [(js ''Content-Type'', js ''application/json''),
              (js ''Access-Control-Allow-Origin'', allowedOrigin cfg),
              (js ''Access-Control-Allow-Headers'', js ''Content-Type''),
              (js ''Access-Control-Allow-Methods'', js ''POST, OPTIONS'')],
           body = jsonStringify eng (JObj
             [(js ''message'', JStr (js ''Thank you for contacting us! Your message has been sent.'')),
              (js ''success'', JBool True)]) \<rparr>"
proof -
  have a: "fst (handler eng cfg cl event ctx) = createResponse eng cfg 200 successBody []"
    using assms(1,3,4) by (simp add: handler_validated(1) detectAndSend_blocked(1))
  have b: "fst (handler eng' cfg cl' event' ctx') = createResponse eng' cfg 200 successBody []"
    using assms(1,5,6,7) by (simp add: handler_validated(1) detectAndSend_forwarded(1) sendAndRespond_fst)
  show ?thesis unfolding a b by (simp add: createResponse_plain assms(2) successBody_def)
qed


lemma failOpen_not_blocked: "\<not> blocks eng cfg (failOpenResult e)"
  by (simp add: blocks_iff failOpenResult_def js_def)


lemma detectAndSend_blocked_effects:
  assumes "spamDetectionEnabled cfg" "blocks eng cfg (fst (classifySubmission eng cfg cl cd))"
  shows "set (snd (logBlockedSubmission eng cfg cl cd (fst (classifySubmission eng cfg cl cd)) event))
           \<subseteq> set (snd (detectAndSend eng cfg cl event ctx cd))"
  using assms by (auto simp: detectAndSend_def blocks_def Let_def split: prod.splits)

lemma handler_validated_effects:
  assumes "validated eng cfg event ctx = Some cd"
  shows "set (snd (detectAndSend eng cfg cl event ctx cd)) \<subseteq> set (snd (handler eng cfg cl event ctx))"
proof -
  from assms obtain data es where
    p: "isPreflight eng event = Inr False" "parseBody eng ctx event = Inr (data, es)"
       "validateContactForm eng (VALIDATION eng cfg) data = Inr cd"
    by (auto simp: validated_def split: sum.splits bool.splits prod.splits)
  obtain r es2 where d: "detectAndSend eng cfg cl event ctx cd = (r, es2)"
    by (cases "detectAndSend eng cfg cl event ctx cd")
  have t: "handlerTry eng cfg cl event ctx =
        (r, [logLine eng ctx ''info'' ''Processing contact form submission'' []] @ es @ es2)"
    by (simp add: handlerTry_def p d)
  show ?thesis by (auto simp: handler_def t d split: sum.splits)
qed

text \<open>
  C5. When the store write throws for a blocked submission, \<^verbatim>\<open>logBlockedSubmission\<close>
  logs the error and returns \<^verbatim>\<open>null\<close>, and the handler returns the 200 response, with
  the error on the console and no call to the email client.
\<close>

theorem store_failure_not_propagated:
  assumes "validated eng cfg event ctx = Some cd"
    and "spamDetectionEnabled cfg"
    and "cr = fst (classifySubmission eng cfg cl cd)"
    and "blocks eng cfg cr"
    and "ipAddress eng event = Inr ip"
    and "dynamoSend cl (putCommand eng cfg cd cr ip) = Inl e"
  shows "logBlockedSubmission eng cfg cl cd cr event =
           (JNull,
            [DynamoSend (putCommand eng cfg cd cr ip),
             ConsoleError (js ''Failed to log blocked submission to DynamoDB'')
               (JObj [(js ''error'', JStr (errMessage e)), (js ''stack'', JStr (errStack e))])]) \<and>
         fst (handler eng cfg cl event ctx) = createResponse eng cfg 200 successBody [] \<and>
         statusCode (fst (handler eng cfg cl event ctx)) = 200 \<and>
         calls (snd (handler eng cfg cl event ctx)) =
           [BedrockSend (invokeModelCommand eng cfg cd), DynamoSend (putCommand eng cfg cd cr ip)] \<and>
         ConsoleError (js ''Failed to log blocked submission to DynamoDB'')
           (JObj [(js ''error'', JStr (errMessage e)), (js ''stack'', JStr (errStack e))])
           \<in> set (snd (handler eng cfg cl event ctx))"
proof -
  have b: "blocks eng cfg (fst (classifySubmission eng cfg cl cd))" using assms(3,4) by simp
  have l: "logBlockedSubmission eng cfg cl cd cr event =
           (JNull,
            [DynamoSend (putCommand eng cfg cd cr ip),
             ConsoleError (js ''Failed to log blocked submission to DynamoDB'')
               (JObj [(js ''error'', JStr (errMessage e)), (js ''stack'', JStr (errStack e))])])"
    by (simp add: logBlockedSubmission_object [OF assms(5)] assms(6))
  have r: "fst (handler eng cfg cl event ctx) = createResponse eng cfg 200 successBody []"
    using assms(1,2) b by (simp add: handler_validated(1) detectAndSend_blocked(1))
  have c: "calls (snd (handler eng cfg cl event ctx)) =
           [BedrockSend (invokeModelCommand eng cfg cd), DynamoSend (putCommand eng cfg cd cr ip)]"
    using assms(1,2) b l assms(3)
    by (simp add: handler_validated(2) detectAndSend_blocked(2))
  have "set (snd (logBlockedSubmission eng cfg cl cd cr event)) \<subseteq> set (snd (handler eng cfg cl event ctx))"
    using detectAndSend_blocked_effects [OF assms(2) b, of event ctx]
      handler_validated_effects [OF assms(1), of cl] assms(3) by blast
  then have m: "ConsoleError (js ''Failed to log blocked submission to DynamoDB'')
           (JObj [(js ''error'', JStr (errMessage e)), (js ''stack'', JStr (errStack e))])
           \<in> set (snd (handler eng cfg cl event ctx))"
    unfolding l by simp
  show ?thesis using l r c m by (simp add: createResponse_def)
qed

text \<open>
  C6. When the email client throws for a validated submission that is forwarded, the
  handler returns status 500 with the body
  \<^verbatim>\<open>{error:"Unable to send message. Please try again later."}\<close>: a response in which
  the thrown error does not occur.
\<close>

theorem send_failure_generic_500:
  assumes "validated eng cfg event ctx = Some cd"
    and "cro = (if spamDetectionEnabled cfg then Some (fst (classifySubmission eng cfg cl cd)) else None)"
    and "\<not> (spamDetectionEnabled cfg \<and> blocks eng cfg (fst (classifySubmission eng cfg cl cd)))"
    and "sesSend cl (sendEmailCommand eng cfg cd cro) = Inl e"
  shows "fst (handler eng cfg cl event ctx) = \<lparr>
           statusCode = 500,
           headers =
             [(js ''Content-Type'', js ''application/json''),
              (js ''Access-Control-Allow-Origin'', allowedOrigin cfg),
              (js ''Access-Control-Allow-Headers'', js ''Content-Type''),
              (js ''Access-Control-Allow-Methods'', js ''POST, OPTIONS'')],
           body = jsonStringify eng (JObj
             [(js ''error'', JStr (js ''Unable to send message. Please try again later.''))]) \<rparr>"
proof -
  have s: "fst (sendEmail eng cfg cl cd cro) = Inl e"
    using assms(4) by (simp add: sendEmail_def Let_def)
  have "fst (detectAndSend eng cfg cl event ctx cd) = Inl e"
  proof (cases "spamDetectionEnabled cfg")
    case True
    then show ?thesis using assms(2,3) s
      by (simp add: detectAndSend_forwarded(1) sendAndRespond_fst)
  next
    case False
    then show ?thesis using assms(2) s
      by (simp add: detectAndSend_disabled sendAndRespond_fst)
  qed
  then show ?thesis
    by (simp add: handler_validated(1) [OF assms(1)] serverError_def createResponse_plain)
qed


section \<open>The stand-ins at work\<close>

lemma test_isPreflight: "isPreflight testEngine testEvent = Inr False"
  by (simp add: isPreflight_object testEvent_def optProp_def js_def)

lemma test_parseBody:
  "parseBody testEngine ctx testEvent =
     Inr (submission, [logLine testEngine ctx ''info'' ''Parsed JSON data'' []])"
  by (simp add: parseBody_def getProp_simps testEvent_def optProp_def jsOr_def js_def
      testEngine_def testParse_def)

lemma test_trims:
  "trim (js ''a@b.c'') = js ''a@b.c''" "trim (js ''Al'') = js ''Al''"
  "trim (js ''1'') = js ''1''" "trim (js ''Hi'') = js ''Hi''"
  by (simp_all add: trim_def js_def isWhiteSpace_def isWhiteSpaceCP_def)

lemma test_validate:
  "validateContactForm testEngine (VALIDATION testEngine testConfig) submission = Inr testContact"
proof -
  have e: "validateField (JStr (js ''a@b.c'')) (js ''email'') (v_email (VALIDATION testEngine testConfig))
             = Inr (js ''a@b.c'')"
    unfolding validateField_string test_trims
    by (simp add: VALIDATION_def regexTest_def matches_def Plus_def notSpaceNorAt_def
        isWhiteSpaceCP_def js_def)
  have n: "validateField (JStr (js ''Al'')) (js ''name'') (v_name (VALIDATION testEngine testConfig))
             = Inr (js ''Al'')"
    unfolding validateField_string test_trims
    by (simp add: VALIDATION_def regexTest_def matches_def Plus_def testConfig_def defaultConfig_def
        testEngine_def isWhiteSpaceCP_def js_def)
  have p: "validateField (JStr (js ''1'')) (js ''phone'') (v_phone (VALIDATION testEngine testConfig))
             = Inr (js ''1'')"
    unfolding validateField_string test_trims
    by (simp add: VALIDATION_def regexTest_def matches_def Plus_def testConfig_def defaultConfig_def
        isWhiteSpaceCP_def js_def)
  have m: "validateField (JStr (js ''Hi'')) (js ''message'') (v_message (VALIDATION testEngine testConfig))
             = Inr (js ''Hi'')"
    unfolding validateField_string test_trims
    by (simp add: VALIDATION_def regexTest_def matches_def Plus_def testConfig_def defaultConfig_def
        testEngine_def isWhiteSpaceCP_def js_def)
  have g: "getOwn submission (js ''email'') = JStr (js ''a@b.c'')"
    "getOwn submission (js ''name'') = JStr (js ''Al'')"
    "getOwn submission (js ''phone'') = JStr (js ''1'')"
    "getOwn submission (js ''message'') = JStr (js ''Hi'')"
    by (simp_all add: submission_def js_def)
  have "\<not> nullish submission" by (simp add: submission_def)
  then show ?thesis
    by (simp add: validateContactForm_object g e n p m testContact_def)
qed

lemma test_validated: "validated testEngine testConfig testEvent ctx = Some testContact"
  by (simp add: validated_def test_isPreflight test_parseBody test_validate)

lemma test_decode: "utf8Decode testEngine (map ucast (modelResponseText spamText)) = modelResponseText spamText"
  by (simp add: testEngine_def modelResponseText_def spamText_def escapeQuotes_def js_def)

lemma test_parse:
  "jsonParse testEngine (modelResponseText spamText) = Inr (modelResponse spamText)"
  "jsonParse testEngine spamText = Inr spamResult"
  by (simp_all add: testEngine_def testParse_def requestBody_def badNameBody_def
      modelResponseText_def spamText_def escapeQuotes_def js_def)

lemma test_classifyTry:
  assumes b: "\<And>x. bedrockSend cl x = Inr (map ucast (modelResponseText spamText))"
  shows "classifyTry testEngine cfg cl cd = Inr spamClassification"
proof -
  have t: "trim spamText = spamText"
    by (simp add: trim_def spamText_def js_def isWhiteSpace_def isWhiteSpaceCP_def)
  have s: "\<not> startsWith spamText (js ''```'')"
    by (simp add: spamText_def js_def)
  have g: "getOwn spamResult (js ''classification'') = JStr (js ''SPAM'')"
    "getOwn spamResult (js ''confidence'') = JNum (Num (95 / 100))"
    "getOwn spamResult (js ''reason'') = JStr (js ''x'')"
    by (simp_all add: spamResult_def js_def)
  have c: "getOwn (modelResponse spamText) (js ''content'') = JArr [JObj [(js ''text'', JStr spamText)]]"
     "getOwn (JObj [(js ''text'', JStr spamText)]) (js ''text'') = JStr spamText"
    by (simp_all add: modelResponse_def)
  have n: "\<not> nullish spamResult" "\<not> nullish (modelResponse spamText)"
    by (simp_all add: spamResult_def modelResponse_def)
  show ?thesis
    unfolding classifyTry_def b
    by (simp add: test_decode test_parse getProp_simps n c t s g Let_def spamClassification_def)
qed

lemma test_bedrock:
  "bedrockSend (mockClients spamText) x = Inr (map ucast (modelResponseText spamText))"
  "bedrockSend failingDynamo x = Inr (map ucast (modelResponseText spamText))"
  "bedrockSend failingBedrock x = Inl (Error (js ''Bedrock unavailable'') [])"
  by (simp_all add: mockClients_def failingDynamo_def failingBedrock_def)

lemma test_classify_spam:
  "fst (classifySubmission testEngine cfg (mockClients spamText) cd) = spamClassification"
  "fst (classifySubmission testEngine cfg failingDynamo cd) = spamClassification"
  by (simp_all add: classifySubmission_fst test_classifyTry test_bedrock)

lemma test_blocks_spam: "blocks testEngine testConfig spamClassification"
  by (simp add: blocks_iff spamClassification_def testConfig_def defaultConfig_def)

lemma test_classify_failing:
  "classifyTry testEngine cfg failingBedrock cd = Inl (Error (js ''Bedrock unavailable'') [])"
  "fst (classifySubmission testEngine cfg failingBedrock cd)
     = failOpenResult (Error (js ''Bedrock unavailable'') [])"
  by (simp_all add: classifySubmission_fst classifyTry_def test_bedrock)

lemma test_sendEmail_ok:
  "fst (sendEmail testEngine cfg failingBedrock cd cro) = Inr (JStr (js ''test-message-id''))"
  by (simp add: sendEmail_def Let_def failingBedrock_def mockClients_def getProp_simps)

lemma test_enabled: "spamDetectionEnabled testConfig" "\<not> spamDetectionEnabled defaultConfig"
  by (simp_all add: testConfig_def defaultConfig_def)

lemma test_validated_default: "validated testEngine defaultConfig testEvent ctx = Some testContact"
proof -
  have h: "VALIDATION testEngine defaultConfig = VALIDATION testEngine testConfig"
    by (simp add: VALIDATION_def testConfig_def)
  show ?thesis unfolding validated_def h by (rule test_validated [unfolded validated_def])
qed

lemma test_ipAddress: "ipAddress testEngine testEvent = Inr (JStr (js ''unknown''))"
  by (simp add: ipAddress_def requestContextProp_def getProp_simps testEvent_def optProp_def
      jsOr_def js_def)



lemma test_dynamo_fails: "dynamoSend failingDynamo x = Inl (Error (js ''DynamoDB error'') [])"
  by (simp add: failingDynamo_def)

lemma test_ses_fails: "sesSend failingSes x = Inl (Error (js ''SES Error'') [])"
  by (simp add: failingSes_def)



section \<open>Closed instances\<close>

text \<open>
  Each property above is used once at the stand-ins, with its hypotheses established
  there by evaluation.
\<close>

text \<open>Instance for C1: a spam verdict of 0.95 is blocked, a failing classifier is forwarded and its email sent: the two responses are equal.\<close>

theorem blocked_and_sent_responses_identical_witness:
  "spamDetectionEnabled testConfig \<and>
   validated testEngine testConfig testEvent testContext = Some testContact \<and>
   blocks testEngine testConfig
     (fst (classifySubmission testEngine testConfig (mockClients spamText) testContact)) \<and>
   \<not> blocks testEngine testConfig
     (fst (classifySubmission testEngine testConfig failingBedrock testContact)) \<and>
   fst (sendEmail testEngine testConfig failingBedrock testContact
          (Some (fst (classifySubmission testEngine testConfig failingBedrock testContact))))
     = Inr (JStr (js ''test-message-id'')) \<and>
   fst (handler testEngine testConfig (mockClients spamText) testEvent testContext)
     = fst (handler testEngine testConfig failingBedrock testEvent testContext) \<and>
   statusCode (fst (handler testEngine testConfig (mockClients spamText) testEvent testContext)) = 200"
proof -
  have b: "blocks testEngine testConfig
             (fst (classifySubmission testEngine testConfig (mockClients spamText) testContact))"
    by (simp add: test_classify_spam test_blocks_spam)
  have n: "\<not> blocks testEngine testConfig
             (fst (classifySubmission testEngine testConfig failingBedrock testContact))"
    by (simp add: test_classify_failing failOpen_not_blocked)
  note c = blocked_and_sent_responses_identical
      [where ctx = testContext and ctx' = testContext,
       OF test_enabled(1) refl test_validated b test_validated n test_sendEmail_ok]
  from c have e: "fst (handler testEngine testConfig (mockClients spamText) testEvent testContext)
     = fst (handler testEngine testConfig failingBedrock testEvent testContext)" by (rule conjunct1)
  have "statusCode (fst (handler testEngine testConfig (mockClients spamText) testEvent testContext)) = 200"
    by (subst conjunct2 [OF c]) simp
  then show ?thesis
    using e by (simp add: test_enabled(1) test_validated b n test_sendEmail_ok)
qed




text \<open>Instance for C5: the store client throws "DynamoDB error" for a blocked submission.\<close>

theorem store_failure_not_propagated_witness:
  "validated testEngine testConfig testEvent testContext = Some testContact \<and>
   spamDetectionEnabled testConfig \<and>
   spamClassification = fst (classifySubmission testEngine testConfig failingDynamo testContact) \<and>
   blocks testEngine testConfig spamClassification \<and>
   ipAddress testEngine testEvent = Inr (JStr (js ''unknown'')) \<and>
   dynamoSend failingDynamo
     (putCommand testEngine testConfig testContact spamClassification (JStr (js ''unknown'')))
     = Inl (Error (js ''DynamoDB error'') []) \<and>
   fst (logBlockedSubmission testEngine testConfig failingDynamo testContact spamClassification
          testEvent) = JNull \<and>
   statusCode (fst (handler testEngine testConfig failingDynamo testEvent testContext)) = 200 \<and>
   calls (snd (handler testEngine testConfig failingDynamo testEvent testContext)) =
     [BedrockSend (invokeModelCommand testEngine testConfig testContact),
      DynamoSend (putCommand testEngine testConfig testContact spamClassification
                    (JStr (js ''unknown'')))]"
  using store_failure_not_propagated
    [where ctx = testContext,
     OF test_validated test_enabled(1) test_classify_spam(2) [symmetric] test_blocks_spam
        test_ipAddress test_dynamo_fails]
  by (simp add: test_validated test_enabled(1) test_classify_spam(2) test_blocks_spam
      test_ipAddress test_dynamo_fails createResponse_def)

text \<open>Instance for C6: the email client throws "SES Error".\<close>

theorem send_failure_generic_500_witness:
  "validated testEngine defaultConfig testEvent testContext = Some testContact \<and>
   \<not> spamDetectionEnabled defaultConfig \<and>
   sesSend failingSes (sendEmailCommand testEngine defaultConfig testContact None)
     = Inl (Error (js ''SES Error'') []) \<and>
   statusCode (fst (handler testEngine defaultConfig failingSes testEvent testContext)) = 500 \<and>
   body (fst (handler testEngine defaultConfig failingSes testEvent testContext)) =
     jsonStringify testEngine
       (JObj [(js ''error'', JStr (js ''Unable to send message. Please try again later.''))])"
proof -
  have c: "None = (if spamDetectionEnabled defaultConfig
                   then Some (fst (classifySubmission testEngine defaultConfig failingSes testContact))
                   else None)"
    by (simp add: test_enabled)
  have n: "\<not> (spamDetectionEnabled defaultConfig \<and>
             blocks testEngine defaultConfig
               (fst (classifySubmission testEngine defaultConfig failingSes testContact)))"
    by (simp add: test_enabled)
  show ?thesis
    using send_failure_generic_500
      [where ctx = testContext, OF test_validated_default c n test_ses_fails]
    by (simp add: test_validated_default test_enabled test_ses_fails)
qed



text \<open>Instance for C8: every field of the submission padded with a space on both sides.\<close>

theorem validate_padded_witness:
  "validateContactForm testEngine (VALIDATION testEngine testConfig) submission = Inr testContact \<and>
   list_all isWhiteSpace (js '' '') \<and>
   getOwn paddedSubmission (js ''email'') = pad (js '' '') (js '' '') (getOwn submission (js ''email'')) \<and>
   getOwn paddedSubmission (js ''name'') = pad (js '' '') (js '' '') (getOwn submission (js ''name'')) \<and>
   getOwn paddedSubmission (js ''phone'') = pad (js '' '') (js '' '') (getOwn submission (js ''phone'')) \<and>
   getOwn paddedSubmission (js ''message'') = pad (js '' '') (js '' '') (getOwn submission (js ''message'')) \<and>
   validateContactForm testEngine (VALIDATION testEngine testConfig) paddedSubmission = Inr testContact"
proof -
  have w: "list_all isWhiteSpace (js '' '')" by (simp add: js_def ws_space)
  have g: "getOwn paddedSubmission (js ''email'') = pad (js '' '') (js '' '') (getOwn submission (js ''email''))"
    "getOwn paddedSubmission (js ''name'') = pad (js '' '') (js '' '') (getOwn submission (js ''name''))"
    "getOwn paddedSubmission (js ''phone'') = pad (js '' '') (js '' '') (getOwn submission (js ''phone''))"
    "getOwn paddedSubmission (js ''message'') = pad (js '' '') (js '' '') (getOwn submission (js ''message''))"
    by (simp_all add: paddedSubmission_def submission_def js_def)
  have p: "\<forall>k \<in> set fieldNames.
           list_all isWhiteSpace ((\<lambda>k. js '' '') k) \<and> list_all isWhiteSpace ((\<lambda>k. js '' '') k) \<and>
           getOwn paddedSubmission k = pad ((\<lambda>k. js '' '') k) ((\<lambda>k. js '' '') k) (getOwn submission k)"
    using w g by (simp add: fieldNames_def)
  show ?thesis
    using validate_padded [OF test_validate p] w g test_validate by simp
qed

text \<open>Instance for C9: a preflight event whose body is not JSON.\<close>

theorem options_short_circuit_witness:
  "\<not> nullish preflightEvent \<and>
   getOwn preflightEvent (js ''httpMethod'') = JStr (js ''OPTIONS'') \<and>
   handler testEngine testConfig failingBedrock preflightEvent testContext =
     (createResponse testEngine testConfig 200 (JObj [(js ''message'', JStr (js ''OK''))]) [], []) \<and>
   statusCode (fst (handler testEngine testConfig failingBedrock preflightEvent testContext)) = 200"
proof -
  have n: "\<not> nullish preflightEvent" by (simp add: preflightEvent_def)
  have g: "getOwn preflightEvent (js ''httpMethod'') = JStr (js ''OPTIONS'')"
    by (simp add: preflightEvent_def)
  show ?thesis
    using options_short_circuit
      [where eng = testEngine and cfg = testConfig and cl = failingBedrock and ctx = testContext,
       OF n disjI1 [OF g]]
      n g by (simp add: createResponse_def)
qed

text \<open>Instance for C10: five characters against a maximum of 5, and six.\<close>

theorem validateField_length_boundary_witness:
  "js ''hello'' \<noteq> [] \<and>
   maxLength \<lparr>maxLength = Some 5, pattern = None\<rparr> = Some (int (length (trim (js ''hello'')))) \<and>
   trim (js ''hello'') \<noteq> [] \<and>
   validateField (JStr (js ''hello'')) (js ''test'') \<lparr>maxLength = Some 5, pattern = None\<rparr>
     = Inr (js ''hello'') \<and>
   validateField (JStr (js ''hello!'')) (js ''test'') \<lparr>maxLength = Some 5, pattern = None\<rparr>
     = Inl (ValidationError (js ''test'') (js ''test must be less than 5 characters''))"
proof -
  have t: "trim (js ''hello'') = js ''hello''" "trim (js ''hello!'') = js ''hello!''"
    by (simp_all add: trim_def js_def isWhiteSpace_def isWhiteSpaceCP_def)
  have n: "js (showInt 5) = js ''5''" by code_simp
  have j: "js ''hello'' \<noteq> []" "js ''hello!'' \<noteq> []"
    "length (js ''hello'') = 5" "length (js ''hello!'') = 6"
    by (simp_all add: js_def)
  have a: "js ''test'' @ js '' must be less than '' @ js ''5'' @ js '' characters''
             = js ''test must be less than 5 characters''"
    by (simp add: js_def)
  show ?thesis
    using validateField_length_boundary
      [of "js ''hello''" "\<lparr>maxLength = Some 5, pattern = None\<rparr>" "js ''test''"
          "JStr (js ''hello!'')"]
    by (simp add: t n j a)
qed

end
